theory Spec2Isabelle
  imports Complex_Main "HOL-Library.Word" "HOL-Library.AList"
begin

chapter \<open>A shallow embedding of parts of the Memgraph query pipeline and RPC client\<close>

text \<open>
  The development follows the source files: the storage record \<open>Edge\<close>, the RPC client
  with its byte buffer, the query interpreter with its plan cache, and the textual plan
  printer. Code that the sources only call (sockets, serialisation, the parser and planner,
  operator cursors, clocks) is taken as a parameter of the function that calls it.
  All definitions come first, the lemmas and theorems follow.
\<close>

section \<open>Storage: \<open>Edge::CloneData\<close>\<close>

text \<open>
  \<open>class Edge : public mvcc::Record<Edge>\<close> has the four data members \<open>from_\<close>,
  \<open>to_\<close>, \<open>edge_type_\<close> and \<open>properties_\<close>. The members of the superclass
  \<open>mvcc::Record\<close> are declared in a header that is not part of the sources; they are kept
  as one field \<open>record_base\<close> of an arbitrary type \<open>'r\<close>. The types of vertex addresses,
  edge types and property stores are type parameters as well.
\<close>

record ('r, 'va, 'et, 'ps) Edge =
  record_base :: 'r
  from_address :: 'va
  to_address :: 'va
  edge_type :: 'et
  properties :: 'ps

text \<open>
  The private copy constructor: the superclass is initialised by \<open>mvcc::Record<Edge>()\<close>,
  its default constructor, whose result is the parameter \<open>record_default\<close>; the four data
  members are copied from \<open>other\<close>.
\<close>

definition Edge_copy :: "'r \<Rightarrow> ('r, 'va, 'et, 'ps) Edge \<Rightarrow> ('r, 'va, 'et, 'ps) Edge" where
  "Edge_copy record_default other =
     \<lparr>record_base = record_default,
      from_address = from_address other,
      to_address = to_address other,
      edge_type = edge_type other,
      properties = properties other\<rparr>"

text \<open>
  The free store: \<open>new\<close> returns an address that holds no object yet. Addresses are
  natural numbers handed out in increasing order; \<open>next_free\<close> is the first address never
  handed out.
\<close>

record 'obj heap =
  next_free :: nat
  cells :: "nat \<rightharpoonup> 'obj"

definition heap_new :: "'obj heap \<Rightarrow> 'obj \<Rightarrow> nat \<times> 'obj heap" where
  "heap_new h obj = (next_free h, h\<lparr>next_free := Suc (next_free h), cells := (cells h)(next_free h \<mapsto> obj)\<rparr>)"

definition heap_ok :: "'obj heap \<Rightarrow> bool" where
  "heap_ok h = (\<forall>a. cells h a \<noteq> None \<longrightarrow> a < next_free h)"

text \<open>
  \<open>Edge *CloneData() { return new Edge(*this); }\<close> for the object at address \<open>this\<close>.
  Calling a member function through a pointer to no object is undefined in C++; the model
  returns \<open>None\<close> there.
\<close>

definition CloneData ::
  "'r \<Rightarrow> ('r, 'va, 'et, 'ps) Edge heap \<Rightarrow> nat \<Rightarrow> (nat \<times> ('r, 'va, 'et, 'ps) Edge heap) option" where
  "CloneData record_default h this =
     (case cells h this of
        None \<Rightarrow> None
      | Some e \<Rightarrow> Some (heap_new h (Edge_copy record_default e)))"

section \<open>RPC: the byte buffer and \<open>Client::Call\<close>\<close>

type_synonym byte = "8 word"

subsection \<open>\<open>communication::rpc::Buffer\<close>\<close>

text \<open>
  The class keeps a vector \<open>data_\<close> and the count \<open>have_\<close> of bytes available for reading,
  which are the first \<open>have_\<close> bytes of the vector. Nothing reads the vector past them, so
  the model keeps those bytes (\<open>stored\<close>) and the vector's size (\<open>capacity\<close>). The member
  functions are defined in a file that is not part of the sources; they are modelled from
  the documentation comments of \<open>buffer.hpp\<close>.
\<close>

definition kBufferInitialSize :: nat where
  "kBufferInitialSize = 65536"

record Buffer =
  stored :: "byte list"
  capacity :: nat

definition Buffer_new :: Buffer where
  "Buffer_new = \<lparr>stored = [], capacity = kBufferInitialSize\<rparr>"

text \<open>\<open>Allocate\<close>: the size of the memory available after the stored data.\<close>

definition Allocate :: "Buffer \<Rightarrow> nat" where
  "Allocate b = capacity b - length (stored b)"

text \<open>\<open>Written(len)\<close>, with the \<open>len\<close> bytes that were written into the allocated memory.\<close>

definition Written :: "Buffer \<Rightarrow> byte list \<Rightarrow> Buffer" where
  "Written b bytes = b\<lparr>stored := stored b @ bytes\<rparr>"

text \<open>\<open>Shift(len)\<close> removes \<open>len\<close> bytes from the start of the buffer.\<close>

definition Shift :: "Buffer \<Rightarrow> nat \<Rightarrow> Buffer" where
  "Shift b len = b\<lparr>stored := drop len (stored b)\<rparr>"

text \<open>\<open>Resize(len)\<close>: the buffer grows to \<open>len\<close> when it is smaller, and never shrinks.\<close>

definition Resize :: "Buffer \<Rightarrow> nat \<Rightarrow> Buffer" where
  "Resize b len = (if len < capacity b then b else b\<lparr>capacity := len\<rparr>)"

definition Clear :: "Buffer \<Rightarrow> Buffer" where
  "Clear b = b\<lparr>stored := []\<rparr>"

definition size_buf :: "Buffer \<Rightarrow> nat" where
  "size_buf b = length (stored b)"

subsection \<open>Integers on the wire\<close>

text \<open>
  The client reads and writes integers by \<open>reinterpret_cast\<close> of the bytes in memory, that
  is in the byte order of the host, taken to be little-endian. \<open>MessageSize\<close> is declared
  in a header that is not part of the sources; it is taken to be \<open>uint32_t\<close>.
\<close>

fun le_nat :: "byte list \<Rightarrow> nat" where
  "le_nat [] = 0"
| "le_nat (b # bs) = unat b + 256 * le_nat bs"

fun le_bytes :: "nat \<Rightarrow> nat \<Rightarrow> byte list" where
  "le_bytes 0 n = []"
| "le_bytes (Suc k) n = word_of_nat (n mod 256) # le_bytes k (n div 256)"

definition sizeof_uint32 :: nat where
  "sizeof_uint32 = 4"

definition sizeof_MessageSize :: nat where
  "sizeof_MessageSize = 4"

definition MessageSize_max :: nat where
  "MessageSize_max = 2 ^ (8 * sizeof_MessageSize) - 1"

subsection \<open>The socket and the archive\<close>

text \<open>
  \<open>io::network::Socket\<close> and the boost archives are outside the sources. Their operations
  are the fields of \<open>rpc_env\<close>; \<open>'w\<close> is the state of the network and of the peer.
  \<open>Read w len\<close> gives the bytes the socket puts into a buffer of \<open>len\<close> bytes; no bytes
  stands for a return value \<open>received <= 0\<close>. An archive that does not parse makes
  \<open>boost\<close> throw, which is \<open>Inl\<close>; a message is a \<open>unique_ptr\<close> and may be null, which is
  \<open>None\<close>.
\<close>

datatype rpc_error = ArchiveException | CheckFailed

record ('w, 'msg) rpc_env =
  ErrorStatus :: "'w \<Rightarrow> bool"
  Connect :: "'w \<Rightarrow> bool \<times> 'w"
  Write :: "'w \<Rightarrow> byte list \<Rightarrow> bool \<times> 'w"
  Read :: "'w \<Rightarrow> nat \<Rightarrow> byte list \<times> 'w"
  serialize :: "'msg option \<Rightarrow> byte list"
  deserialize :: "byte list \<Rightarrow> rpc_error + 'msg option"

text \<open>
  The members of \<open>Client\<close> that \<open>Call\<close> uses. \<open>socket_\<close> is a \<open>std::optional\<close>: the field
  says whether it holds a socket.
\<close>

record Client =
  socket :: bool
  buffer :: Buffer
  next_message_id :: "32 word"
  service_name :: "byte list"

text \<open>
  How the receive loop ends: it returns \<open>nullptr\<close> after resetting the socket, an exception
  leaves it, or it returns the response. \<open>Received\<close> also carries the value of the local
  variable \<open>response_id\<close> at the \<open>return\<close>, so that theorems can speak about it.
\<close>

datatype 'msg received =
    ReturnedNull
  | Threw rpc_error
  | Received "32 word" "'msg option"

text \<open>
  One iteration of the loop \<open>while (true)\<close> of lines 93 to 132: either the function
  returns (\<open>Done\<close>), or the loop goes on with the network and the buffer as the iteration
  leaves them (\<open>Continue\<close>, the three \<open>continue\<close> statements of the source).
\<close>

datatype ('r, 's) iteration = Done 'r | Continue 's

definition receive_step ::
  "('w, 'msg) rpc_env \<Rightarrow> 32 word \<Rightarrow> 'w \<Rightarrow> Buffer \<Rightarrow>
     ('msg received \<times> 'w \<times> Buffer, 'w \<times> Buffer) iteration" where
  "receive_step env request_id w buf =
     (let len = Allocate buf;
          (bytes, w1) = Read env w len;
          bytes = take len bytes
      in if bytes = [] then Done (ReturnedNull, w1, buf)
         else
           let buf1 = Written buf bytes
           in if size_buf buf1 < sizeof_uint32 + sizeof_MessageSize
              then Continue (w1, buf1)
              else
                let response_id = (word_of_nat (le_nat (take sizeof_uint32 (stored buf1))) :: 32 word);
                    response_data_size =
                      le_nat (take sizeof_MessageSize (drop sizeof_uint32 (stored buf1)));
                    response_size = sizeof_uint32 + sizeof_MessageSize + response_data_size;
                    buf2 = Resize buf1 response_size
                in if size_buf buf2 < response_size
                   then Continue (w1, buf2)
                   else
                     (case deserialize env
                             (take response_data_size
                                (drop (sizeof_uint32 + sizeof_MessageSize) (stored buf2))) of
                        Inl e \<Rightarrow> Done (Threw e, w1, buf2)
                      | Inr response \<Rightarrow>
                          let buf3 = Shift buf2 response_size
                          in if response_id \<noteq> request_id
                             then Continue (w1, buf3)
                             else Done (Received response_id response, w1, buf3)))"

text \<open>
  The loop itself. It runs for as long as the peer sends stale or incomplete responses, so
  the model counts the iterations it may still make: \<open>None\<close> means that the loop has not
  returned within that many iterations.
\<close>

fun receive_loop ::
  "nat \<Rightarrow> ('w, 'msg) rpc_env \<Rightarrow> 32 word \<Rightarrow> 'w \<Rightarrow> Buffer \<Rightarrow> ('msg received \<times> 'w \<times> Buffer) option" where
  "receive_loop 0 env request_id w buf = None"
| "receive_loop (Suc n) env request_id w buf =
     (case receive_step env request_id w buf of
        Done r \<Rightarrow> Some r
      | Continue (w1, buf1) \<Rightarrow> receive_loop n env request_id w1 buf1)"

text \<open>
  \<open>Client::Call\<close>. The result is the way the call ends, the client's members afterwards
  and the state of the network. Every \<open>return nullptr\<close> of the source resets \<open>socket_\<close>
  first.
\<close>

definition Call ::
  "nat \<Rightarrow> ('w, 'msg) rpc_env \<Rightarrow> Client \<Rightarrow> 'w \<Rightarrow> 'msg option \<Rightarrow> ('msg received \<times> Client \<times> 'w) option" where
  "Call fuel env c w request =
     (let request_id = next_message_id c + 1;
          c = c\<lparr>next_message_id := request_id\<rparr>;
          c = (if socket c \<and> ErrorStatus env w then c\<lparr>socket := False\<rparr> else c);
          connected =
            (if \<not> socket c then
               let c = c\<lparr>socket := True, buffer := Clear (buffer c)\<rparr>;
                   (ok, w) = Connect env w
               in if \<not> ok then (False, c, w)
                  else
                    let (ok, w) = Write env w (le_bytes sizeof_MessageSize (length (service_name c)))
                    in if \<not> ok then (False, c, w)
                       else
                         let (ok, w) = Write env w (service_name c)
                         in (ok, c, w)
             else (True, c, w))
      in case connected of
           (False, c, w) \<Rightarrow> Some (ReturnedNull, c\<lparr>socket := False\<rparr>, w)
         | (True, c, w) \<Rightarrow>
             let (ok, w) = Write env w (le_bytes sizeof_uint32 (unat request_id))
             in if \<not> ok then Some (ReturnedNull, c\<lparr>socket := False\<rparr>, w)
                else
                  let request_buffer = serialize env request
                  in if \<not> length request_buffer \<le> MessageSize_max
                     then Some (Threw CheckFailed, c, w)
                     else
                       let (ok, w) = Write env w (le_bytes sizeof_MessageSize (length request_buffer))
                       in if \<not> ok then Some (ReturnedNull, c\<lparr>socket := False\<rparr>, w)
                          else
                            let (ok, w) = Write env w request_buffer
                            in if \<not> ok then Some (ReturnedNull, c\<lparr>socket := False\<rparr>, w)
                               else
                                 (case receive_loop fuel env request_id w (buffer c) of
                                    None \<Rightarrow> None
                                  | Some (ReturnedNull, w, buf) \<Rightarrow>
                                      Some (ReturnedNull, c\<lparr>socket := False, buffer := buf\<rparr>, w)
                                  | Some (r, w, buf) \<Rightarrow> Some (r, c\<lparr>buffer := buf\<rparr>, w)))"

section \<open>Query: values, symbols and plans\<close>

text \<open>
  Modelled from the spec: \<open>TypedValue\<close>, whose header is not part of the sources, is the
  tagged union of section 3 of the specification: null, boolean, integer, double, string,
  list, map, vertex handle, edge handle and path. A double is a real number here, and a
  handle is the identity of the vertex or edge.
\<close>

datatype TypedValue =
    TNull
  | TBool bool
  | TInt int
  | TDouble real
  | TString string
  | TList "TypedValue list"
  | TMap "(string \<times> TypedValue) list"
  | TVertex nat
  | TEdge nat
  | TPath "nat list"

text \<open>
  A \<open>Symbol\<close> with the members the sources read: \<open>name()\<close>, \<open>position()\<close> (its slot in the
  frame) and \<open>token_position()\<close>, which is \<open>-1\<close> when the symbol has none.
\<close>

datatype SymbolType = AnyType | VertexType | EdgeType | PathType

record Symbol =
  name :: string
  position :: nat
  user_declared :: bool
  type_tag :: SymbolType
  token_position :: int

text \<open>
  Modelled from the spec: the symbol table, whose header is not part of the sources, is
  "a mapping from symbol slot to Symbol, with \<open>max_position\<close> = next free slot". Creating a
  symbol gives it the next free slot.
\<close>

record SymbolTable =
  max_position :: nat
  table :: "nat \<rightharpoonup> Symbol"

definition SymbolTable_new :: SymbolTable where
  "SymbolTable_new = \<lparr>max_position = 0, table = Map.empty\<rparr>"






text \<open>
  Modelled from the spec: the \<open>Frame\<close>, whose header is not part of the sources, is "a
  fixed-size vector of typed values indexed by symbol slot". \<open>Frame(size)\<close> makes \<open>size\<close>
  null values. Reading \<open>frame[symbol]\<close> outside the vector is undefined in C++; the model
  gives \<open>None\<close> there.
\<close>

type_synonym Frame = "TypedValue list"

definition Frame_new :: "nat \<Rightarrow> Frame" where
  "Frame_new n = replicate n TNull"

definition Frame_at :: "Frame \<Rightarrow> Symbol \<Rightarrow> TypedValue option" where
  "Frame_at frame symbol =
     (if position symbol < length frame then Some (frame ! position symbol) else None)"

subsection \<open>Logical operators\<close>

text \<open>
  The operators that the sources name. Those that the plan printer treats by its macro
  \<open>PRE_VISIT(TOp)\<close> have one input and are told apart by \<open>unary_operator\<close>; the leaves that
  it treats by \<open>Visit\<close> with a line of output are told apart by \<open>leaf_operator\<close>. Every other
  operator has a constructor with the members that the printer reads and its inputs.
\<close>

datatype unary_operator =
    CreateNode
  | CreateExpand
  | Delete
  | ConstructNamedPath
  | Filter
  | SetProperty
  | SetProperties
  | SetLabels
  | RemoveProperty
  | RemoveLabels
  | ExpandUniquenessFilter_VertexAccessor
  | ExpandUniquenessFilter_EdgeAccessor
  | Accumulate
  | Skip
  | Limit
  | Unwind
  | Distinct

datatype leaf_operator =
    CreateIndex
  | AuthHandler
  | CreateStream
  | DropStream
  | ShowStreams
  | StartStopStream
  | StartStopAllStreams
  | TestStream

datatype Direction = IN | OUT | BOTH

record ExpandCommon =
  input_symbol :: Symbol
  edge_symbol :: Symbol
  node_symbol :: Symbol
  direction :: Direction

text \<open>
  The inputs come last: \<open>Merge input merge_match merge_create\<close>,
  \<open>Optional input optional\<close>, \<open>Cartesian left_symbols right_symbols left_op right_op\<close>.
  \<open>Produce\<close> carries the names of its named expressions, \<open>Aggregate\<close> the output symbols of
  its aggregations and its remembered symbols, \<open>OrderBy\<close> its output symbols.
\<close>

datatype LogicalOperator =
    Once
  | Unary unary_operator LogicalOperator
  | Leaf leaf_operator
  | ScanAll Symbol LogicalOperator
  | ScanAllByLabel Symbol nat LogicalOperator
  | ScanAllByLabelPropertyValue Symbol nat nat LogicalOperator
  | ScanAllByLabelPropertyRange Symbol nat nat LogicalOperator
  | Expand ExpandCommon LogicalOperator
  | ExpandVariable ExpandCommon LogicalOperator
  | Produce "string list" LogicalOperator
  | Aggregate "Symbol list" "Symbol list" LogicalOperator
  | OrderBy "Symbol list" LogicalOperator
  | Merge LogicalOperator LogicalOperator LogicalOperator
  | Optional LogicalOperator LogicalOperator
  | Explain Symbol LogicalOperator
  | Cartesian "Symbol list" "Symbol list" LogicalOperator LogicalOperator


section \<open>The interpreter\<close>

subsection \<open>What \<open>Interpret\<close> works with\<close>

text \<open>
  The exceptions that leave \<open>Interpret\<close>. The sources throw
  \<open>UnprovidedParameterError\<close> and \<open>QueryRuntimeException\<close> (the specification's
  \<open>QueryRuntimeError\<close>); the others come from the code that \<open>Interpret\<close> calls.
  \<open>FrameOutOfRange\<close> stands for a read of the frame outside its vector.
\<close>

datatype query_error =
    SyntaxException string
  | SemanticException string
  | UnprovidedParameterError string
  | QueryRuntimeException string
  | HintedAbortError
  | OtherException string
  | FrameOutOfRange

text \<open>\<open>Parameters\<close>: pairs of a token position and a value; \<open>Add\<close> puts one more at the end.\<close>

type_synonym Parameters = "(int \<times> TypedValue) list"

definition Parameters_Add :: "Parameters \<Rightarrow> int \<Rightarrow> TypedValue \<Rightarrow> Parameters" where
  "Parameters_Add ps pos v = ps @ [(pos, v)]"

text \<open>
  The stripped query, by its four accessors. \<open>parameters\<close> lists the user parameters in the
  order in which the loop of \<open>Interpret\<close> meets them.
\<close>

record StrippedQuery =
  hash :: "64 word"
  literals :: Parameters
  parameters :: "(int \<times> string) list"
  named_expressions :: "int \<rightharpoonup> string"

text \<open>
  The \<open>Context\<close> of one invocation. The members \<open>symbol_table_\<close> and \<open>parameters_\<close> are the
  fields \<open>ctx_symbol_table\<close> and \<open>ctx_parameters\<close>, since \<open>CachedPlan\<close> and \<open>StrippedQuery\<close>
  have accessors of the same names. \<open>'db\<close> is the state behind the \<open>GraphDbAccessor\<close>.
\<close>

record 'db Context =
  db_accessor :: 'db
  in_explicit_transaction :: bool
  is_query_cached :: bool
  is_index_created :: bool
  ctx_symbol_table :: SymbolTable
  ctx_parameters :: Parameters

definition Context_new :: "'db \<Rightarrow> 'db Context" where
  "Context_new db =
     \<lparr>db_accessor = db, in_explicit_transaction = False, is_query_cached = False,
      is_index_created = False, ctx_symbol_table = SymbolTable_new, ctx_parameters = []\<rparr>"

text \<open>
  What the result stream has received, in order.
\<close>

datatype stream_event =
    Header "string list"
  | Result "TypedValue list"
  | Summary "string \<rightharpoonup> TypedValue"

text \<open>The command line flags that \<open>Interpret\<close> reads.\<close>

record Flags =
  query_cost_planner :: bool
  query_plan_cache :: bool
  query_plan_cache_ttl :: int

subsection \<open>Time\<close>

text \<open>
  \<open>utils::Timer\<close> is not part of the sources. A timer is known by the reading of the steady
  clock at its construction. Its \<open>Elapsed()\<close> returns a \<open>duration<double>\<close> in seconds: what
  it returns is not computed here but given, as the real number that is the value of the
  double, so that the rounding of the clock's count to a double is part of what is given.
  \<open>duration_cast<seconds>\<close> converts that double to an integer count of seconds by a
  \<open>static_cast\<close>, which drops the fraction (it rounds toward zero).
\<close>

definition duration_cast_seconds :: "real \<Rightarrow> int" where
  "duration_cast_seconds elapsed = (if 0 \<le> elapsed then \<lfloor>elapsed\<rfloor> else \<lceil>elapsed\<rceil>)"

text \<open>
  What the clock shows during one invocation: \<open>at_lookup\<close> gives, for each timer, what its
  \<open>Elapsed()\<close> returns when the cache is looked up; \<open>at_plan_creation\<close> is the reading of
  the clock when a new \<open>CachedPlan\<close> is constructed; the three durations go into the
  summary.
\<close>

record Readings =
  at_lookup :: "int \<Rightarrow> real"
  at_plan_creation :: int
  frontend_time :: real
  planning_time :: real
  execution_time :: real

subsection \<open>The plan cache\<close>

text \<open>
  \<open>cache_timer\<close> is the timer that is constructed with the \<open>CachedPlan\<close>; \<open>'ast\<close> is the
  \<open>AstTreeStorage\<close>. \<open>IsExpired\<close> takes what \<open>Elapsed()\<close> returns for each timer.
\<close>

record 'ast CachedPlan =
  plan :: LogicalOperator
  cost :: real
  symbol_table :: SymbolTable
  ast_storage :: 'ast
  cache_timer :: int

definition IsExpired :: "Flags \<Rightarrow> (int \<Rightarrow> real) \<Rightarrow> 'ast CachedPlan \<Rightarrow> bool" where
  "IsExpired flags elapsed_of cp =
     (let elapsed = elapsed_of (cache_timer cp)
      in duration_cast_seconds elapsed > query_plan_cache_ttl flags)"

text \<open>
  \<open>ConcurrentMap\<close> is not part of the sources. Within one thread it is a list of entries
  with \<open>find\<close>, \<open>remove\<close> and an \<open>insert\<close> that leaves an existing entry in place and
  returns it.
\<close>

type_synonym ('k, 'v) ConcurrentMap = "('k \<times> 'v) list"

definition cmap_find :: "('k, 'v) ConcurrentMap \<Rightarrow> 'k \<Rightarrow> 'v option" where
  "cmap_find m k = map_of m k"

definition cmap_remove :: "('k, 'v) ConcurrentMap \<Rightarrow> 'k \<Rightarrow> ('k, 'v) ConcurrentMap" where
  "cmap_remove m k = filter (\<lambda>entry. fst entry \<noteq> k) m"

definition cmap_insert :: "('k, 'v) ConcurrentMap \<Rightarrow> 'k \<Rightarrow> 'v \<Rightarrow> ('k, 'v) ConcurrentMap \<times> 'v" where
  "cmap_insert m k v =
     (case cmap_find m k of
        None \<Rightarrow> (m @ [(k, v)], v)
      | Some existing \<Rightarrow> (m, existing))"

record 'ast Interpreter =
  plan_cache :: "(64 word, 'ast CachedPlan) ConcurrentMap"

subsection \<open>The code that \<open>Interpret\<close> calls\<close>

text \<open>
  The stripper, the parser, the symbol generator, the planner and the operators with
  their cursors are not part of the sources. \<open>Interpret\<close> takes them as the fields of
  \<open>collaborators\<close>. Each of them may throw (\<open>Inl\<close>). \<open>'cur\<close> is the state of a cursor;
  \<open>Pull\<close> returns whether it produced a row, with the cursor, the frame and the context as
  the call leaves them.
\<close>

record ('db, 'ast, 'cur) collaborators =
  Strip :: "string \<Rightarrow> query_error + StrippedQuery"
  QueryToAst :: "StrippedQuery \<Rightarrow> 'db Context \<Rightarrow> query_error + 'ast \<times> 'db Context"
  SymbolGenerator :: "'ast \<Rightarrow> SymbolTable \<Rightarrow> query_error + SymbolTable"
  MakeLogicalPlan ::
    "'ast \<Rightarrow> 'db \<Rightarrow> 'db Context \<Rightarrow> query_error + LogicalOperator \<times> real \<times> 'ast \<times> 'db Context"
  OutputSymbols :: "LogicalOperator \<Rightarrow> SymbolTable \<Rightarrow> Symbol list"
  MakeCursor :: "LogicalOperator \<Rightarrow> 'db \<Rightarrow> 'cur"
  Pull :: "'cur \<Rightarrow> Frame \<Rightarrow> 'db Context \<Rightarrow> query_error + bool \<times> 'cur \<times> Frame \<times> 'db Context"

subsection \<open>\<open>ExecutePlan\<close>\<close>

text \<open>\<open>utils::FindOr\<close>: the value found under the key, or the given one, and whether it was found.\<close>

definition FindOr :: "('k \<rightharpoonup> 'v) \<Rightarrow> 'k \<Rightarrow> 'v \<Rightarrow> 'v \<times> bool" where
  "FindOr m k or_value = (case m k of Some v \<Rightarrow> (v, True) | None \<Rightarrow> (or_value, False))"

text \<open>The values of the output symbols in the frame, for one row.\<close>

fun frame_values :: "Frame \<Rightarrow> Symbol list \<Rightarrow> TypedValue list option" where
  "frame_values frame [] = Some []"
| "frame_values frame (symbol # symbols) =
     (case Frame_at frame symbol of
        None \<Rightarrow> None
      | Some v \<Rightarrow> (case frame_values frame symbols of None \<Rightarrow> None | Some vs \<Rightarrow> Some (v # vs)))"

text \<open>
  One iteration of \<open>while (cursor->Pull(frame, ctx))\<close> that streams out the results, and
  one of the loop that pulls for the side effects only.
\<close>

definition stream_results_step ::
  "('db, 'ast, 'cur) collaborators \<Rightarrow> Symbol list \<Rightarrow> 'cur \<times> Frame \<times> 'db Context \<times> stream_event list \<Rightarrow>
     (stream_event list \<times> (query_error + 'db Context),
      'cur \<times> Frame \<times> 'db Context \<times> stream_event list) iteration" where
  "stream_results_step col output_symbols s =
     (case s of (cursor, frame, ctx, stream) \<Rightarrow>
        (case Pull col cursor frame ctx of
           Inl e \<Rightarrow> Done (stream, Inl e)
         | Inr (pulled, cursor1, frame1, ctx1) \<Rightarrow>
             if pulled then
               (case frame_values frame1 output_symbols of
                  None \<Rightarrow> Done (stream, Inl FrameOutOfRange)
                | Some values \<Rightarrow> Continue (cursor1, frame1, ctx1, stream @ [Result values]))
             else Done (stream, Inr ctx1)))"

definition pull_all_step ::
  "('db, 'ast, 'cur) collaborators \<Rightarrow> 'cur \<times> Frame \<times> 'db Context \<times> stream_event list \<Rightarrow>
     (stream_event list \<times> (query_error + 'db Context),
      'cur \<times> Frame \<times> 'db Context \<times> stream_event list) iteration" where
  "pull_all_step col s =
     (case s of (cursor, frame, ctx, stream) \<Rightarrow>
        (case Pull col cursor frame ctx of
           Inl e \<Rightarrow> Done (stream, Inl e)
         | Inr (pulled, cursor1, frame1, ctx1) \<Rightarrow>
             if pulled then Continue (cursor1, frame1, ctx1, stream)
             else Done (stream, Inr ctx1)))"

text \<open>
  A loop that runs until its body returns. A cursor may go on producing rows, so the model
  counts the iterations the loop may still make: \<open>None\<close> means that it has not returned
  within that many.
\<close>

fun loop :: "nat \<Rightarrow> ('s \<Rightarrow> ('r, 's) iteration) \<Rightarrow> 's \<Rightarrow> 'r option" where
  "loop 0 body s = None"
| "loop (Suc n) body s =
     (case body s of
        Done r \<Rightarrow> Some r
      | Continue s1 \<Rightarrow> loop n body s1)"

text \<open>
  The cursor, the frame and the context after \<open>n\<close> calls of \<open>Pull\<close> that each produced a
  row; \<open>None\<close> when one of them threw or produced none.
\<close>

fun after_pulls ::
  "('db, 'ast, 'cur) collaborators \<Rightarrow> nat \<Rightarrow> 'cur \<times> Frame \<times> 'db Context \<Rightarrow> ('cur \<times> Frame \<times> 'db Context) option" where
  "after_pulls col 0 s = Some s"
| "after_pulls col (Suc n) s =
     (case s of (cursor, frame, ctx) \<Rightarrow>
        (case Pull col cursor frame ctx of
           Inr (True, s1) \<Rightarrow> after_pulls col n s1
         | _ \<Rightarrow> None))"

text \<open>The chain of \<open>dynamic_cast\<close>s of lines 209 to 218.\<close>

fun is_side_effect_root :: "LogicalOperator \<Rightarrow> bool" where
  "is_side_effect_root (Unary CreateNode input) = True"
| "is_side_effect_root (Unary CreateExpand input) = True"
| "is_side_effect_root (Unary SetProperty input) = True"
| "is_side_effect_root (Unary SetProperties input) = True"
| "is_side_effect_root (Unary SetLabels input) = True"
| "is_side_effect_root (Unary RemoveProperty input) = True"
| "is_side_effect_root (Unary RemoveLabels input) = True"
| "is_side_effect_root (Unary Delete input) = True"
| "is_side_effect_root (Merge input merge_match merge_create) = True"
| "is_side_effect_root (Leaf CreateIndex) = True"
| "is_side_effect_root other = False"

definition make_header :: "StrippedQuery \<Rightarrow> Symbol list \<Rightarrow> string list" where
  "make_header stripped output_symbols =
     map (\<lambda>symbol. fst (FindOr (named_expressions stripped) (token_position symbol) (name symbol)))
       output_symbols"

text \<open>
  \<open>ExecutePlan\<close> returns what the stream has received and either the exception thrown or
  the context as the execution leaves it.
\<close>

definition ExecutePlan ::
  "nat \<Rightarrow> ('db, 'ast, 'cur) collaborators \<Rightarrow> stream_event list \<Rightarrow> LogicalOperator \<Rightarrow> 'db Context \<Rightarrow>
     StrippedQuery \<Rightarrow> (stream_event list \<times> (query_error + 'db Context)) option" where
  "ExecutePlan fuel col stream logical_plan ctx stripped =
     (let frame = Frame_new (max_position (ctx_symbol_table ctx));
          header = [];
          output_symbols = OutputSymbols col logical_plan (ctx_symbol_table ctx)
      in if output_symbols \<noteq> [] then
           let header = make_header stripped output_symbols;
               stream = stream @ [Header header];
               cursor = MakeCursor col logical_plan (db_accessor ctx)
           in loop fuel (stream_results_step col output_symbols) (cursor, frame, ctx, stream)
         else if is_side_effect_root logical_plan then
           let stream = stream @ [Header header];
               cursor = MakeCursor col logical_plan (db_accessor ctx)
           in loop fuel (pull_all_step col) (cursor, frame, ctx, stream)
         else Some (stream, Inl (QueryRuntimeException ''Unknown top level LogicalOperator'')))"

subsection \<open>\<open>Interpret\<close>\<close>

text \<open>
  Lines 79 to 87: the context's parameters are the literals of the stripped query, and
  every user parameter is looked up in \<open>params\<close> and added, or the exception is thrown.
\<close>

fun add_parameters ::
  "(int \<times> string) list \<Rightarrow> (string \<rightharpoonup> TypedValue) \<Rightarrow> Parameters \<Rightarrow> query_error + Parameters" where
  "add_parameters [] params ps = Inr ps"
| "add_parameters (param_pair # rest) params ps =
     (case params (snd param_pair) of
        None \<Rightarrow> Inl (UnprovidedParameterError (''Parameter$ '' @ snd param_pair @ '' not provided''))
      | Some v \<Rightarrow> add_parameters rest params (Parameters_Add ps (fst param_pair) v))"

text \<open>Lines 91 to 104: the cached plan for the hash, after the removal of an expired one.\<close>

definition find_cached_plan ::
  "Flags \<Rightarrow> (int \<Rightarrow> real) \<Rightarrow> (64 word, 'ast CachedPlan) ConcurrentMap \<Rightarrow> 64 word \<Rightarrow>
     (64 word, 'ast CachedPlan) ConcurrentMap \<times> 'ast CachedPlan option" where
  "find_cached_plan flags elapsed_of cache h =
     (let plan_cache_it = cmap_find cache h;
          (cache, plan_cache_it) =
            (if plan_cache_it \<noteq> None \<and> IsExpired flags elapsed_of (the plan_cache_it)
             then (cmap_remove cache h, None)
             else (cache, plan_cache_it))
      in (cache, plan_cache_it))"

text \<open>
  Lines 110 to 131: without a cached plan the query is compiled, and the new plan is
  inserted into the cache when the flag says so.
\<close>

definition plan_or_compile ::
  "('db, 'ast, 'cur) collaborators \<Rightarrow> Flags \<Rightarrow> Readings \<Rightarrow> StrippedQuery \<Rightarrow> 'db Context \<Rightarrow>
     (64 word, 'ast CachedPlan) ConcurrentMap \<Rightarrow> 'ast CachedPlan option \<Rightarrow>
     query_error + (64 word, 'ast CachedPlan) ConcurrentMap \<times> 'ast CachedPlan \<times> 'db Context" where
  "plan_or_compile col flags rd stripped ctx cache cached_plan =
     (case cached_plan of
        Some cp \<Rightarrow> Inr (cache, cp, ctx)
      | None \<Rightarrow>
          (case QueryToAst col stripped ctx of
             Inl e \<Rightarrow> Inl e
           | Inr (ast, ctx1) \<Rightarrow>
               (case SymbolGenerator col ast (ctx_symbol_table ctx1) of
                  Inl e \<Rightarrow> Inl e
                | Inr st \<Rightarrow>
                    (case MakeLogicalPlan col ast (db_accessor ctx1) (ctx1\<lparr>ctx_symbol_table := st\<rparr>) of
                       Inl e \<Rightarrow> Inl e
                     | Inr (tmp_logical_plan, query_plan_cost_estimation, ast1, ctx2) \<Rightarrow>
                         let cp = \<lparr>plan = tmp_logical_plan, cost = query_plan_cost_estimation,
                                   symbol_table = ctx_symbol_table ctx2, ast_storage = ast1,
                                   cache_timer = at_plan_creation rd\<rparr>
                         in if query_plan_cache flags
                            then let (cache1, cp1) = cmap_insert cache (hash stripped) cp
                                 in Inr (cache1, cp1, ctx2)
                            else Inr (cache, cp, ctx2)))))"

text \<open>Lines 140 to 147: every entry that the iteration over the cache meets is removed.\<close>

definition remove_all :: "('k, 'v) ConcurrentMap \<Rightarrow> ('k, 'v) ConcurrentMap" where
  "remove_all cache = fold (\<lambda>cached_plan accessor. cmap_remove accessor (fst cached_plan)) cache cache"

definition make_summary :: "Readings \<Rightarrow> 'ast CachedPlan \<Rightarrow> (string \<rightharpoonup> TypedValue)" where
  "make_summary rd cp =
     (Map.empty
        (''parsing_time'' \<mapsto> TDouble (frontend_time rd)))
        (''planning_time'' \<mapsto> TDouble (planning_time rd),
         ''plan_execution_time'' \<mapsto> TDouble (execution_time rd),
         ''cost_estimate'' \<mapsto> TDouble (cost cp),
         ''type'' \<mapsto> TString ''rw'')"

text \<open>Lines 69 to 87: the context, the stripped query and the parameters.\<close>

definition prepare ::
  "('db, 'ast, 'cur) collaborators \<Rightarrow> string \<Rightarrow> 'db \<Rightarrow> (string \<rightharpoonup> TypedValue) \<Rightarrow> bool \<Rightarrow>
     query_error + StrippedQuery \<times> 'db Context" where
  "prepare col query db params explicit =
     (let ctx = (Context_new db)\<lparr>in_explicit_transaction := explicit, is_query_cached := True\<rparr>
      in case Strip col query of
           Inl e \<Rightarrow> Inl e
         | Inr stripped \<Rightarrow>
             (case add_parameters (parameters stripped) params (literals stripped) of
                Inl e \<Rightarrow> Inl e
              | Inr ps \<Rightarrow> Inr (stripped, ctx\<lparr>ctx_parameters := ps\<rparr>)))"

text \<open>
  \<open>Interpret\<close> returns the interpreter with its cache, what the stream has received, and
  either the exception that left the function or the context at its end. \<open>None\<close> means
  that the execution of the plan has not returned within \<open>fuel\<close> pulls.
\<close>

definition Interpret ::
  "nat \<Rightarrow> ('db, 'ast, 'cur) collaborators \<Rightarrow> Flags \<Rightarrow> Readings \<Rightarrow> 'ast Interpreter \<Rightarrow> string \<Rightarrow> 'db \<Rightarrow>
     stream_event list \<Rightarrow> (string \<rightharpoonup> TypedValue) \<Rightarrow> bool \<Rightarrow>
     ('ast Interpreter \<times> stream_event list \<times> (query_error + 'db Context)) option" where
  "Interpret fuel col flags rd self query db stream params explicit =
     (case prepare col query db params explicit of
        Inl e \<Rightarrow> Some (self, stream, Inl e)
      | Inr (stripped, ctx) \<Rightarrow>
          (case find_cached_plan flags (at_lookup rd) (plan_cache self) (hash stripped) of
             (cache1, cached_plan) \<Rightarrow>
               (case plan_or_compile col flags rd stripped ctx cache1 cached_plan of
                  Inl e \<Rightarrow> Some (self\<lparr>plan_cache := cache1\<rparr>, stream, Inl e)
                | Inr (cache2, cp, ctx1) \<Rightarrow>
                    (case ExecutePlan fuel col stream (plan cp)
                            (ctx1\<lparr>ctx_symbol_table := symbol_table cp\<rparr>) stripped of
                       None \<Rightarrow> None
                     | Some (stream1, Inl e) \<Rightarrow> Some (self\<lparr>plan_cache := cache2\<rparr>, stream1, Inl e)
                     | Some (stream1, Inr ctx2) \<Rightarrow>
                         let cache3 = (if is_index_created ctx2 then remove_all cache2 else cache2)
                         in Some (self\<lparr>plan_cache := cache3\<rparr>,
                                  stream1 @ [Summary (make_summary rd cp)],
                                  Inr ctx2)))))"

subsection \<open>The cursor of \<open>CreateIndex\<close>\<close>



subsection \<open>The symbols of a plan\<close>





section \<open>The plan printer\<close>

text \<open>
  \<open>PlanPrinter\<close> writes to the stream \<open>out_\<close> and keeps the current depth in \<open>depth_\<close>. The
  accessor \<open>dba_\<close> gives the names of labels and properties.
\<close>

record PlanPrinter =
  out :: string
  depth :: nat

record GraphDbAccessor_names =
  LabelName :: "nat \<Rightarrow> string"
  PropertyName :: "nat \<Rightarrow> string"

text \<open>
  Modelled from the spec: \<open>WithPrintLn\<close> is declared in a header that is not part of the
  sources. The specification says that the rendering is a "depth-indented tree": the
  function writes the indentation of the current depth, then what its argument writes, then
  the end of the line. The indentation of each depth is the parameter \<open>indent\<close>.
\<close>

definition WithPrintLn :: "(nat \<Rightarrow> string) \<Rightarrow> string \<Rightarrow> PlanPrinter \<Rightarrow> PlanPrinter" where
  "WithPrintLn indent body p = p\<lparr>out := out p @ indent (depth p) @ body @ [CHR 0x0A]\<rparr>"

text \<open>\<open>utils::PrintIterable\<close>: the items with the delimiter between them.\<close>

fun PrintIterable :: "string list \<Rightarrow> string \<Rightarrow> string" where
  "PrintIterable [] delim = []"
| "PrintIterable [item] delim = item"
| "PrintIterable (item # items) delim = item @ delim @ PrintIterable items delim"

text \<open>The name that the macro \<open>PRE_VISIT(TOp)\<close> writes for \<open>TOp\<close>, and the names of the leaves.\<close>

fun unary_name :: "unary_operator \<Rightarrow> string" where
  "unary_name CreateNode = ''CreateNode''"
| "unary_name CreateExpand = ''CreateExpand''"
| "unary_name Delete = ''Delete''"
| "unary_name ConstructNamedPath = ''ConstructNamedPath''"
| "unary_name Filter = ''Filter''"
| "unary_name SetProperty = ''SetProperty''"
| "unary_name SetProperties = ''SetProperties''"
| "unary_name SetLabels = ''SetLabels''"
| "unary_name RemoveProperty = ''RemoveProperty''"
| "unary_name RemoveLabels = ''RemoveLabels''"
| "unary_name ExpandUniquenessFilter_VertexAccessor = ''ExpandUniquenessFilter<VertexAccessor>''"
| "unary_name ExpandUniquenessFilter_EdgeAccessor = ''ExpandUniquenessFilter<EdgeAccessor>''"
| "unary_name Accumulate = ''Accumulate''"
| "unary_name Skip = ''Skip''"
| "unary_name Limit = ''Limit''"
| "unary_name Unwind = ''Unwind''"
| "unary_name Distinct = ''Distinct''"

fun leaf_name :: "leaf_operator \<Rightarrow> string" where
  "leaf_name CreateIndex = ''CreateIndex''"
| "leaf_name AuthHandler = ''AuthHandler''"
| "leaf_name CreateStream = ''CreateStream''"
| "leaf_name DropStream = ''DropStream''"
| "leaf_name ShowStreams = ''ShowStreams''"
| "leaf_name StartStopStream = ''StartStopStream''"
| "leaf_name StartStopAllStreams = ''StartStopAllStreams''"
| "leaf_name TestStream = ''TestStream''"

definition PrintExpand :: "ExpandCommon \<Rightarrow> string" where
  "PrintExpand op =
     '' ('' @ name (input_symbol op) @ '')''
     @ (if direction op = IN then ''<-'' else ''-'')
     @ ''['' @ name (edge_symbol op) @ '']''
     @ (if direction op = OUT then ''->'' else ''-'')
     @ ''('' @ name (node_symbol op) @ '')''"

text \<open>
  What \<open>PreVisit\<close> or \<open>Visit\<close> writes after the indentation for the operator itself. \<open>Once\<close>
  has no line: its \<open>Visit\<close> writes nothing.
\<close>

fun operator_line :: "GraphDbAccessor_names \<Rightarrow> LogicalOperator \<Rightarrow> string" where
  "operator_line dba Once = []"
| "operator_line dba (Unary k input) = ''* '' @ unary_name k"
| "operator_line dba (Leaf k) = ''* '' @ leaf_name k"
| "operator_line dba (ScanAll symbol input) = ''* ScanAll'' @ '' ('' @ name symbol @ '')''"
| "operator_line dba (ScanAllByLabel symbol label input) =
     ''* ScanAllByLabel'' @ '' ('' @ name symbol @ '' :'' @ LabelName dba label @ '')''"
| "operator_line dba (ScanAllByLabelPropertyValue symbol label property input) =
     ''* ScanAllByLabelPropertyValue'' @ '' ('' @ name symbol @ '' :'' @ LabelName dba label @ '' {''
       @ PropertyName dba property @ ''})''"
| "operator_line dba (ScanAllByLabelPropertyRange symbol label property input) =
     ''* ScanAllByLabelPropertyRange'' @ '' ('' @ name symbol @ '' :'' @ LabelName dba label @ '' {''
       @ PropertyName dba property @ ''})''"
| "operator_line dba (Expand op input) = ''* Expand'' @ PrintExpand op"
| "operator_line dba (ExpandVariable op input) = ''* ExpandVariable'' @ PrintExpand op"
| "operator_line dba (Produce names input) = ''* Produce {'' @ PrintIterable names '', '' @ ''}''"
| "operator_line dba (Aggregate aggregations remember input) =
     ''* Aggregate {'' @ PrintIterable (map name aggregations) '', '' @ ''} {''
       @ PrintIterable (map name remember) '', '' @ ''}''"
| "operator_line dba (OrderBy output_symbols input) =
     ''* OrderBy {'' @ PrintIterable (map name output_symbols) '', '' @ ''}''"
| "operator_line dba (Merge input merge_match merge_create) = ''* Merge''"
| "operator_line dba (Optional input optional) = ''* Optional''"
| "operator_line dba (Explain symbol input) = ''* Explain {'' @ name symbol @ ''}''"
| "operator_line dba (Cartesian left_symbols right_symbols left_op right_op) =
     ''* Cartesian {'' @ PrintIterable (map name left_symbols) '', '' @ '' : ''
       @ PrintIterable (map name right_symbols) '', '' @ ''}''"

text \<open>The line that \<open>Branch\<close> writes before the branch: a bar, a backslash, a space and the name.\<close>

definition branch_line :: "string \<Rightarrow> string" where
  "branch_line branch_name = [CHR ''|'', CHR 0x5C, CHR '' ''] @ branch_name"

text \<open>
  \<open>Accept\<close> runs the visitor over a plan. The operators' \<open>Accept\<close> functions are not part of
  the sources; they follow the protocol of the hierarchical visitor, which section 9 of the
  specification describes as a traversal where each visit says whether to descend: an
  operator with one input calls \<open>PreVisit\<close> and, when that returns true, \<open>Accept\<close> of its
  input; a leaf calls \<open>Visit\<close>. \<open>PreVisit\<close> of \<open>Merge\<close>, \<open>Optional\<close> and \<open>Cartesian\<close>
  returns false after it has visited the inputs itself, the branches by \<open>Branch\<close>.
\<close>

fun Accept :: "(nat \<Rightarrow> string) \<Rightarrow> GraphDbAccessor_names \<Rightarrow> LogicalOperator \<Rightarrow> PlanPrinter \<Rightarrow> PlanPrinter"
  and Branch ::
    "(nat \<Rightarrow> string) \<Rightarrow> GraphDbAccessor_names \<Rightarrow> LogicalOperator \<Rightarrow> string \<Rightarrow> PlanPrinter \<Rightarrow> PlanPrinter" where
  "Accept indent dba Once p = p"
| "Accept indent dba (Unary k input) p =
     Accept indent dba input (WithPrintLn indent (operator_line dba (Unary k input)) p)"
| "Accept indent dba (Leaf k) p = WithPrintLn indent (operator_line dba (Leaf k)) p"
| "Accept indent dba (ScanAll symbol input) p =
     Accept indent dba input (WithPrintLn indent (operator_line dba (ScanAll symbol input)) p)"
| "Accept indent dba (ScanAllByLabel symbol label input) p =
     Accept indent dba input (WithPrintLn indent (operator_line dba (ScanAllByLabel symbol label input)) p)"
| "Accept indent dba (ScanAllByLabelPropertyValue symbol label property input) p =
     Accept indent dba input
       (WithPrintLn indent (operator_line dba (ScanAllByLabelPropertyValue symbol label property input)) p)"
| "Accept indent dba (ScanAllByLabelPropertyRange symbol label property input) p =
     Accept indent dba input
       (WithPrintLn indent (operator_line dba (ScanAllByLabelPropertyRange symbol label property input)) p)"
| "Accept indent dba (Expand op input) p =
     Accept indent dba input (WithPrintLn indent (operator_line dba (Expand op input)) p)"
| "Accept indent dba (ExpandVariable op input) p =
     Accept indent dba input (WithPrintLn indent (operator_line dba (ExpandVariable op input)) p)"
| "Accept indent dba (Produce names input) p =
     Accept indent dba input (WithPrintLn indent (operator_line dba (Produce names input)) p)"
| "Accept indent dba (Aggregate aggregations remember input) p =
     Accept indent dba input
       (WithPrintLn indent (operator_line dba (Aggregate aggregations remember input)) p)"
| "Accept indent dba (OrderBy output_symbols input) p =
     Accept indent dba input (WithPrintLn indent (operator_line dba (OrderBy output_symbols input)) p)"
| "Accept indent dba (Merge input merge_match merge_create) p =
     Accept indent dba input
       (Branch indent dba merge_create ''On Create''
          (Branch indent dba merge_match ''On Match''
             (WithPrintLn indent (operator_line dba (Merge input merge_match merge_create)) p)))"
| "Accept indent dba (Optional input optional) p =
     Accept indent dba input
       (Branch indent dba optional []
          (WithPrintLn indent (operator_line dba (Optional input optional)) p))"
| "Accept indent dba (Explain symbol input) p =
     Accept indent dba input (WithPrintLn indent (operator_line dba (Explain symbol input)) p)"
| "Accept indent dba (Cartesian left_symbols right_symbols left_op right_op) p =
     Accept indent dba left_op
       (Branch indent dba right_op []
          (WithPrintLn indent (operator_line dba (Cartesian left_symbols right_symbols left_op right_op)) p))"
| "Branch indent dba op branch_name p =
     (let p1 = WithPrintLn indent (branch_line branch_name) p;
          p2 = Accept indent dba op (p1\<lparr>depth := depth p1 + 1\<rparr>)
      in p2\<lparr>depth := depth p2 - 1\<rparr>)"

text \<open>\<open>PrettyPrint\<close>: a new printer, at depth 0, visits the plan.\<close>

definition PrettyPrint :: "(nat \<Rightarrow> string) \<Rightarrow> GraphDbAccessor_names \<Rightarrow> LogicalOperator \<Rightarrow> string" where
  "PrettyPrint indent dba plan_root = out (Accept indent dba plan_root \<lparr>out = [], depth = 0\<rparr>)"

text \<open>
  The operators of a plan with the depth at which the printer visits each: an input is
  visited at the depth of its operator, a branch one deeper.
\<close>

fun visits :: "nat \<Rightarrow> LogicalOperator \<Rightarrow> (nat \<times> LogicalOperator) list" where
  "visits d Once = [(d, Once)]"
| "visits d (Unary k input) = (d, Unary k input) # visits d input"
| "visits d (Leaf k) = [(d, Leaf k)]"
| "visits d (ScanAll symbol input) = (d, ScanAll symbol input) # visits d input"
| "visits d (ScanAllByLabel symbol label input) = (d, ScanAllByLabel symbol label input) # visits d input"
| "visits d (ScanAllByLabelPropertyValue symbol label property input) =
     (d, ScanAllByLabelPropertyValue symbol label property input) # visits d input"
| "visits d (ScanAllByLabelPropertyRange symbol label property input) =
     (d, ScanAllByLabelPropertyRange symbol label property input) # visits d input"
| "visits d (Expand op input) = (d, Expand op input) # visits d input"
| "visits d (ExpandVariable op input) = (d, ExpandVariable op input) # visits d input"
| "visits d (Produce names input) = (d, Produce names input) # visits d input"
| "visits d (Aggregate aggregations remember input) =
     (d, Aggregate aggregations remember input) # visits d input"
| "visits d (OrderBy output_symbols input) = (d, OrderBy output_symbols input) # visits d input"
| "visits d (Merge input merge_match merge_create) =
     (d, Merge input merge_match merge_create) # visits (Suc d) merge_match @ visits (Suc d) merge_create
       @ visits d input"
| "visits d (Optional input optional) =
     (d, Optional input optional) # visits (Suc d) optional @ visits d input"
| "visits d (Explain symbol input) = (d, Explain symbol input) # visits d input"
| "visits d (Cartesian left_symbols right_symbols left_op right_op) =
     (d, Cartesian left_symbols right_symbols left_op right_op) # visits (Suc d) right_op
       @ visits d left_op"

text \<open>
  The rendering in the words of the specification: a line with \<open>*\<close> for each operator at
  the indentation of its depth, the inputs below it at the same depth, and each branch of
  \<open>Merge\<close>, \<open>Optional\<close> and \<open>Cartesian\<close> after a line with the bar and the backslash, one
  level deeper. \<open>Once\<close> has no line.
\<close>

definition line :: "(nat \<Rightarrow> string) \<Rightarrow> nat \<Rightarrow> string \<Rightarrow> string" where
  "line indent d body = indent d @ body @ [CHR 0x0A]"

fun rendering :: "(nat \<Rightarrow> string) \<Rightarrow> GraphDbAccessor_names \<Rightarrow> nat \<Rightarrow> LogicalOperator \<Rightarrow> string" where
  "rendering indent dba d Once = []"
| "rendering indent dba d (Unary k input) =
     line indent d (operator_line dba (Unary k input)) @ rendering indent dba d input"
| "rendering indent dba d (Leaf k) = line indent d (operator_line dba (Leaf k))"
| "rendering indent dba d (ScanAll symbol input) =
     line indent d (operator_line dba (ScanAll symbol input)) @ rendering indent dba d input"
| "rendering indent dba d (ScanAllByLabel symbol label input) =
     line indent d (operator_line dba (ScanAllByLabel symbol label input)) @ rendering indent dba d input"
| "rendering indent dba d (ScanAllByLabelPropertyValue symbol label property input) =
     line indent d (operator_line dba (ScanAllByLabelPropertyValue symbol label property input))
       @ rendering indent dba d input"
| "rendering indent dba d (ScanAllByLabelPropertyRange symbol label property input) =
     line indent d (operator_line dba (ScanAllByLabelPropertyRange symbol label property input))
       @ rendering indent dba d input"
| "rendering indent dba d (Expand op input) =
     line indent d (operator_line dba (Expand op input)) @ rendering indent dba d input"
| "rendering indent dba d (ExpandVariable op input) =
     line indent d (operator_line dba (ExpandVariable op input)) @ rendering indent dba d input"
| "rendering indent dba d (Produce names input) =
     line indent d (operator_line dba (Produce names input)) @ rendering indent dba d input"
| "rendering indent dba d (Aggregate aggregations remember input) =
     line indent d (operator_line dba (Aggregate aggregations remember input))
       @ rendering indent dba d input"
| "rendering indent dba d (OrderBy output_symbols input) =
     line indent d (operator_line dba (OrderBy output_symbols input)) @ rendering indent dba d input"
| "rendering indent dba d (Merge input merge_match merge_create) =
     line indent d (operator_line dba (Merge input merge_match merge_create))
       @ line indent d (branch_line ''On Match'') @ rendering indent dba (Suc d) merge_match
       @ line indent d (branch_line ''On Create'') @ rendering indent dba (Suc d) merge_create
       @ rendering indent dba d input"
| "rendering indent dba d (Optional input optional) =
     line indent d (operator_line dba (Optional input optional))
       @ line indent d (branch_line []) @ rendering indent dba (Suc d) optional
       @ rendering indent dba d input"
| "rendering indent dba d (Explain symbol input) =
     line indent d (operator_line dba (Explain symbol input)) @ rendering indent dba d input"
| "rendering indent dba d (Cartesian left_symbols right_symbols left_op right_op) =
     line indent d (operator_line dba (Cartesian left_symbols right_symbols left_op right_op))
       @ line indent d (branch_line []) @ rendering indent dba (Suc d) right_op
       @ rendering indent dba d left_op"

text \<open>A text is part of another when it stands in it, in one piece.\<close>

definition part_of :: "string \<Rightarrow> string \<Rightarrow> bool" where
  "part_of piece whole = (\<exists>before after. whole = before @ piece @ after)"


section \<open>Operator contracts\<close>

text \<open>
  Modelled from the spec: the cursors of the operators are not part of the sources; the
  end-to-end test \<open>EdgeUniquenessInOptional\<close> is. The operators that its query needs are
  modelled from their contracts in section 4.5 of the specification, over a graph of
  vertices and edges. An edge is its identity, its source vertex, its target vertex and its
  type.
\<close>

record Graph =
  graph_vertices :: "nat list"
  graph_edges :: "(nat \<times> nat \<times> nat \<times> string) list"

text \<open>
  A cursor operator with the symbols it reads and writes and its input last.
  \<open>POptional\<close> also carries the symbols "that the branch would have written".
\<close>

datatype PlanOperator =
    POnce
  | PScanAll Symbol PlanOperator
  | PExpand Symbol Symbol Symbol Direction "string list" PlanOperator
  | PExpandUniquenessFilter "Symbol list" Symbol PlanOperator
  | POptional "Symbol list" PlanOperator PlanOperator
  | PProduce "(Symbol \<times> Symbol) list" PlanOperator

text \<open>
  Writing the frame at a symbol, and at several. A write outside the frame is undefined in
  C++; the model gives \<open>None\<close>, as it does wherever the specification does not say what an
  operator does.
\<close>

definition Frame_set :: "Frame \<Rightarrow> Symbol \<Rightarrow> TypedValue \<Rightarrow> Frame option" where
  "Frame_set frame symbol v =
     (if position symbol < length frame then Some (frame[position symbol := v]) else None)"

fun Frame_set_all :: "Frame \<Rightarrow> (Symbol \<times> TypedValue) list \<Rightarrow> Frame option" where
  "Frame_set_all frame [] = Some frame"
| "Frame_set_all frame (binding # bindings) =
     (case Frame_set frame (fst binding) (snd binding) of
        None \<Rightarrow> None
      | Some frame1 \<Rightarrow> Frame_set_all frame1 bindings)"

text \<open>
  \<open>ScanAll\<close>: "iterates all vertices visible in the transaction; for each, binds
  \<open>symbol := vertex\<close> and yields".
\<close>

definition scan_all :: "Graph \<Rightarrow> Symbol \<Rightarrow> Frame \<Rightarrow> Frame list option" where
  "scan_all g symbol frame =
     those (map (\<lambda>v. Frame_set frame symbol (TVertex v)) (graph_vertices g))"

text \<open>
  \<open>Expand\<close>: "for the current \<open>input_sym\<close> vertex, iterate edges matching direction and
  optional type set; bind \<open>edge_sym\<close> and the far-end \<open>node_sym\<close>; yield per edge. If
  \<open>input_sym\<close> is null, yield once with \<open>edge_sym := null, node_sym := null\<close>". The edge and
  the far end of each match, for a vertex:
\<close>

definition type_matches :: "string list \<Rightarrow> string \<Rightarrow> bool" where
  "type_matches edge_types ty = (edge_types = [] \<or> ty \<in> set edge_types)"

definition matching_edges :: "Graph \<Rightarrow> Direction \<Rightarrow> string list \<Rightarrow> nat \<Rightarrow> (nat \<times> nat) list" where
  "matching_edges g dir edge_types v =
     (if dir = OUT then []
      else map (\<lambda>(e, src, dst, ty). (e, src))
             (filter (\<lambda>(e, src, dst, ty). dst = v \<and> type_matches edge_types ty) (graph_edges g)))
     @ (if dir = IN then []
        else map (\<lambda>(e, src, dst, ty). (e, dst))
               (filter (\<lambda>(e, src, dst, ty). src = v \<and> type_matches edge_types ty) (graph_edges g)))"

definition expand ::
  "Graph \<Rightarrow> Symbol \<Rightarrow> Symbol \<Rightarrow> Symbol \<Rightarrow> Direction \<Rightarrow> string list \<Rightarrow> Frame \<Rightarrow> Frame list option" where
  "expand g input_sym edge_sym node_sym dir edge_types frame =
     (case Frame_at frame input_sym of
        Some TNull \<Rightarrow>
          map_option (\<lambda>frame1. [frame1]) (Frame_set_all frame [(edge_sym, TNull), (node_sym, TNull)])
      | Some (TVertex v) \<Rightarrow>
          those (map (\<lambda>(e, far). Frame_set_all frame [(edge_sym, TEdge e), (node_sym, TVertex far)])
                   (matching_edges g dir edge_types v))
      | _ \<Rightarrow> None)"

text \<open>
  \<open>ExpandUniquenessFilter\<close>: "drop the row if \<open>current_sym\<close> equals any of
  \<open>previous_syms\<close>; skip the check if \<open>current_sym\<close> is null". \<open>expansion_ok\<close> says whether
  the row is kept.
\<close>

definition expansion_ok :: "Frame \<Rightarrow> Symbol list \<Rightarrow> Symbol \<Rightarrow> bool option" where
  "expansion_ok frame previous_syms current_sym =
     (case Frame_at frame current_sym of
        None \<Rightarrow> None
      | Some current \<Rightarrow>
          if current = TNull then Some True
          else (case frame_values frame previous_syms of
                  None \<Rightarrow> None
                | Some previous \<Rightarrow> Some (current \<notin> set previous)))"

fun uniqueness_filter :: "Symbol list \<Rightarrow> Symbol \<Rightarrow> Frame list \<Rightarrow> Frame list option" where
  "uniqueness_filter previous_syms current_sym [] = Some []"
| "uniqueness_filter previous_syms current_sym (frame # frames) =
     (case expansion_ok frame previous_syms current_sym of
        None \<Rightarrow> None
      | Some ok \<Rightarrow>
          (case uniqueness_filter previous_syms current_sym frames of
             None \<Rightarrow> None
           | Some kept \<Rightarrow> Some (if ok then frame # kept else kept)))"

text \<open>
  \<open>Optional\<close>: "if the branch yields one row or more, forward those; otherwise emit exactly
  one row with all symbols that the branch would have written set to null".
\<close>

definition optional_rows :: "Symbol list \<Rightarrow> Frame \<Rightarrow> Frame list \<Rightarrow> Frame list option" where
  "optional_rows optional_syms frame branch_rows =
     (if branch_rows = []
      then map_option (\<lambda>frame1. [frame1]) (Frame_set_all frame (map (\<lambda>symbol. (symbol, TNull)) optional_syms))
      else Some branch_rows)"

text \<open>\<open>Produce\<close> for projections that are identifiers: each output symbol gets the value of its source.\<close>

fun produce :: "(Symbol \<times> Symbol) list \<Rightarrow> Frame \<Rightarrow> Frame option" where
  "produce [] frame = Some frame"
| "produce (named # rest) frame =
     (case Frame_at frame (snd named) of
        None \<Rightarrow> None
      | Some v \<Rightarrow>
          (case Frame_set frame (fst named) v of
             None \<Rightarrow> None
           | Some frame1 \<Rightarrow> produce rest frame1))"

text \<open>
  The frames of the rows that the cursor of an operator produces when it is pulled until
  exhaustion, from the frame as it is at the first pull. \<open>Once\<close> "yields a single empty row";
  every other operator produces its rows for each row of its input.
\<close>

definition for_each_row :: "(Frame \<Rightarrow> Frame list option) \<Rightarrow> Frame list option \<Rightarrow> Frame list option" where
  "for_each_row f input_rows =
     (case input_rows of
        None \<Rightarrow> None
      | Some frames \<Rightarrow> map_option concat (those (map f frames)))"

fun rows :: "Graph \<Rightarrow> PlanOperator \<Rightarrow> Frame \<Rightarrow> Frame list option" where
  "rows g POnce frame = Some [frame]"
| "rows g (PScanAll symbol input) frame = for_each_row (scan_all g symbol) (rows g input frame)"
| "rows g (PExpand input_sym edge_sym node_sym dir edge_types input) frame =
     for_each_row (expand g input_sym edge_sym node_sym dir edge_types) (rows g input frame)"
| "rows g (PExpandUniquenessFilter previous_syms current_sym input) frame =
     (case rows g input frame of
        None \<Rightarrow> None
      | Some frames \<Rightarrow> uniqueness_filter previous_syms current_sym frames)"
| "rows g (POptional optional_syms input optional) frame =
     (case rows g input frame of
        None \<Rightarrow> None
      | Some frames \<Rightarrow>
          map_option concat
            (those (map (\<lambda>frame1.
                           case rows g optional frame1 of
                             None \<Rightarrow> None
                           | Some branch_rows \<Rightarrow> optional_rows optional_syms frame1 branch_rows)
                      frames)))"
| "rows g (PProduce projections input) frame =
     for_each_row (\<lambda>frame1. map_option (\<lambda>frame2. [frame2]) (produce projections frame1))
       (rows g input frame)"


section \<open>Concrete inputs\<close>

text \<open>The inputs at which the theorems below are evaluated.\<close>

subsection \<open>An edge on the heap\<close>

definition example_edge :: "(nat, nat, nat, nat list) Edge" where
  "example_edge = \<lparr>record_base = 5, from_address = 1, to_address = 2, edge_type = 3, properties = [4]\<rparr>"

definition example_heap :: "(nat, nat, nat, nat list) Edge heap" where
  "example_heap = \<lparr>next_free = 1, cells = [0 \<mapsto> example_edge]\<rparr>"

subsection \<open>A peer that answers with a stale response first\<close>

text \<open>
  The network is the list of the chunks that the next calls of \<open>Read\<close> deliver; a message is
  its own archive. The first response carries the id 7 and one byte of data, the second the
  id 1 and two bytes.
\<close>

definition example_env :: "(byte list list, byte list) rpc_env" where
  "example_env =
     \<lparr>ErrorStatus = (\<lambda>w. False),
      Connect = (\<lambda>w. (True, w)),
      Write = (\<lambda>w bs. (True, w)),
      Read = (\<lambda>w len. case w of [] \<Rightarrow> ([], []) | chunk # rest \<Rightarrow> (chunk, rest)),
      serialize = (\<lambda>m. case m of None \<Rightarrow> [] | Some bs \<Rightarrow> bs),
      deserialize = (\<lambda>bs. Inr (Some bs))\<rparr>"

definition example_client :: Client where
  "example_client = \<lparr>socket = False, buffer = Buffer_new, next_message_id = 0, service_name = [115]\<rparr>"

definition stale_response :: "byte list" where
  "stale_response = [7, 0, 0, 0, 1, 0, 0, 0, 42]"

definition fresh_response :: "byte list" where
  "fresh_response = [1, 0, 0, 0, 2, 0, 0, 0, 5, 6]"


text \<open>
  A peer whose first response carries the stale id 7 and an archive that does not parse:
  the archive of the one byte 255 makes the deserialisation throw.
\<close>

definition strict_env :: "(byte list list, byte list) rpc_env" where
  "strict_env =
     example_env\<lparr>deserialize := (\<lambda>bs. if bs = [255] then Inl ArchiveException else Inr (Some bs))\<rparr>"

definition malformed_response :: "byte list" where
  "malformed_response = [7, 0, 0, 0, 1, 0, 0, 0, 255]"

subsection \<open>An interpreter that runs \<open>CREATE INDEX\<close>\<close>

text \<open>
  Every query strips to the same stripped query with the one user parameter \<open>x\<close>, and
  compiles to the plan \<open>root_op\<close> with no output symbols. The cursor does its work in the
  first pull, where it marks the index as created, and is exhausted at the second; in an
  explicit transaction it throws. The cache holds one plan, for another query.
\<close>

definition example_stripped :: StrippedQuery where
  "example_stripped = \<lparr>hash = 42, literals = [(1, TInt 7)], parameters = [(3, ''x'')],
     named_expressions = [5 \<mapsto> ''n.name'']\<rparr>"

definition example_col :: "LogicalOperator \<Rightarrow> (nat, unit, nat) collaborators" where
  "example_col root_op =
     \<lparr>Strip = (\<lambda>query. Inr example_stripped),
      QueryToAst = (\<lambda>stripped ctx. Inr ((), ctx)),
      SymbolGenerator = (\<lambda>ast st. Inr st),
      MakeLogicalPlan = (\<lambda>ast db ctx. Inr (root_op, 1, ast, ctx)),
      OutputSymbols = (\<lambda>op st. []),
      MakeCursor = (\<lambda>op db. 0),
      Pull = (\<lambda>cursor frame ctx.
                if in_explicit_transaction ctx then Inl (OtherException ''index in multicommand transaction'')
                else if cursor = 0 then Inr (True, 1, frame, ctx\<lparr>db_accessor := Suc (db_accessor ctx), is_index_created := True\<rparr>)
                else Inr (False, cursor, frame, ctx))\<rparr>"

definition example_flags :: Flags where
  "example_flags = \<lparr>query_cost_planner = False, query_plan_cache = True, query_plan_cache_ttl = 10\<rparr>"

definition example_readings :: Readings where
  "example_readings = \<lparr>at_lookup = (\<lambda>timer. 21 / 2), at_plan_creation = 10500000000,
     frontend_time = 0, planning_time = 0, execution_time = 0\<rparr>"

definition example_plan :: "unit CachedPlan" where
  "example_plan = \<lparr>plan = Unary CreateNode Once, cost = 2, symbol_table = SymbolTable_new,
     ast_storage = (), cache_timer = 0\<rparr>"

definition example_interpreter :: "unit Interpreter" where
  "example_interpreter = \<lparr>plan_cache = [(7, example_plan)]\<rparr>"

definition example_params :: "string \<rightharpoonup> TypedValue" where
  "example_params = [''x'' \<mapsto> TInt 1]"

definition example_ctx :: "nat Context" where
  "example_ctx = \<lparr>db_accessor = 0, in_explicit_transaction = False, is_query_cached = True,
     is_index_created = False, ctx_symbol_table = SymbolTable_new,
     ctx_parameters = [(1, TInt 7), (3, TInt 1)]\<rparr>"

definition example_fresh_plan :: "LogicalOperator \<Rightarrow> unit CachedPlan" where
  "example_fresh_plan root_op = \<lparr>plan = root_op, cost = 1, symbol_table = SymbolTable_new,
     ast_storage = (), cache_timer = 10500000000\<rparr>"


text \<open>
  In \<open>example_readings\<close> every timer reports 10.5 seconds at the lookup. In \<open>late_readings\<close>
  every timer reports 11 seconds; \<open>late_plan\<close> is the plan compiled then.
\<close>

definition late_readings :: Readings where
  "late_readings = \<lparr>at_lookup = (\<lambda>timer. 11), at_plan_creation = 11000000000,
     frontend_time = 0, planning_time = 0, execution_time = 0\<rparr>"

definition late_plan :: "unit CachedPlan" where
  "late_plan = \<lparr>plan = Leaf CreateIndex, cost = 1, symbol_table = SymbolTable_new,
     ast_storage = (), cache_timer = 11000000000\<rparr>"



subsection \<open>A plan to print\<close>

text \<open>
  An indentation of a space and one bar with a space for each level, names for the labels
  and properties, and the plan of
  \<open>MATCH (n) OPTIONAL MATCH (n)-[r]->(m) RETURN n, r\<close>.
\<close>

definition example_indent :: "nat \<Rightarrow> string" where
  "example_indent d = '' '' @ concat (replicate d ''| '')"

definition example_names :: GraphDbAccessor_names where
  "example_names = \<lparr>LabelName = (\<lambda>label. ''Label''), PropertyName = (\<lambda>property. ''prop'')\<rparr>"

definition symbol_n :: Symbol where
  "symbol_n = \<lparr>name = ''n'', position = 0, user_declared = True, type_tag = VertexType, token_position = 2\<rparr>"

definition symbol_r :: Symbol where
  "symbol_r = \<lparr>name = ''r'', position = 1, user_declared = True, type_tag = EdgeType, token_position = 5\<rparr>"

definition symbol_m :: Symbol where
  "symbol_m = \<lparr>name = ''m'', position = 2, user_declared = True, type_tag = VertexType, token_position = 7\<rparr>"

definition example_expand :: LogicalOperator where
  "example_expand =
     Expand \<lparr>input_symbol = symbol_n, edge_symbol = symbol_r, node_symbol = symbol_m, direction = OUT\<rparr> Once"

definition example_optional :: LogicalOperator where
  "example_optional = Produce [''n'', ''r''] (Optional (ScanAll symbol_n Once) example_expand)"


subsection \<open>The test \<open>EdgeUniquenessInOptional\<close>\<close>

text \<open>
  The graph that \<open>CREATE (), ()-[:Type]->()\<close> leaves: three vertices and one edge, from the
  second vertex to the third.
\<close>

definition test_graph :: Graph where
  "test_graph = \<lparr>graph_vertices = [0, 1, 2], graph_edges = [(0, 1, 2, ''Type'')]\<rparr>"

text \<open>
  The plan of \<open>MATCH (n) OPTIONAL MATCH (n)-[r1]->(), (n)-[r2]->() RETURN n, r1, r2\<close> by
  the rules of section 4.4 of the specification: a \<open>ScanAll\<close> for \<open>n\<close>; for the optional
  match an \<open>Optional\<close> whose branch expands from \<open>n\<close> once for each of the two patterns and
  then filters for the distinctness of the edges; a \<open>Produce\<close> for the three results. The
  symbols have the slots 0 to 7.
\<close>

definition symbol_at :: "string \<Rightarrow> nat \<Rightarrow> Symbol" where
  "symbol_at nm i = \<lparr>name = nm, position = i, user_declared = True, type_tag = AnyType, token_position = -1\<rparr>"

definition test_branch :: PlanOperator where
  "test_branch =
     PExpandUniquenessFilter [symbol_at ''r1'' 1] (symbol_at ''r2'' 3)
       (PExpand (symbol_at ''n'' 0) (symbol_at ''r2'' 3) (symbol_at ''anon2'' 4) OUT []
          (PExpand (symbol_at ''n'' 0) (symbol_at ''r1'' 1) (symbol_at ''anon1'' 2) OUT [] POnce))"

definition test_plan :: PlanOperator where
  "test_plan =
     PProduce [(symbol_at ''n'' 5, symbol_at ''n'' 0), (symbol_at ''r1'' 6, symbol_at ''r1'' 1), (symbol_at ''r2'' 7, symbol_at ''r2'' 3)]
       (POptional [symbol_at ''r1'' 1, symbol_at ''anon1'' 2, symbol_at ''r2'' 3, symbol_at ''anon2'' 4]
          (PScanAll (symbol_at ''n'' 0) POnce) test_branch)"

text \<open>The values of \<open>n\<close>, \<open>r1\<close> and \<open>r2\<close> in the rows of a result.\<close>

definition results :: "Frame list option \<Rightarrow> TypedValue list list option" where
  "results produced = map_option (map (\<lambda>frame. [frame ! 5, frame ! 6, frame ! 7])) produced"

subsection \<open>Building an index, and a scan with a result\<close>




chapter \<open>Properties\<close>

section \<open>\<open>Edge::CloneData\<close>\<close>

text \<open>
  Claim C10. \<open>Edge::CloneData\<close> returns a newly allocated \<open>Edge\<close>: its address held no
  object before the call. The fields \<open>from_\<close>, \<open>to_\<close>, \<open>edge_type_\<close> and \<open>properties_\<close> of
  the new edge equal those of the source edge, and its \<open>mvcc::Record\<close> state is the
  default-constructed one, whatever the state of the source is. No other object changes.
\<close>

theorem CloneData_copies_data:
  assumes "heap_ok h" and "cells h this = Some e"
  shows "\<exists>p h' c. CloneData d h this = Some (p, h') \<and> cells h p = None \<and> cells h' p = Some c
           \<and> from_address c = from_address e \<and> to_address c = to_address e
           \<and> edge_type c = edge_type e \<and> properties c = properties e
           \<and> record_base c = d
           \<and> (\<forall>a. a \<noteq> p \<longrightarrow> cells h' a = cells h a) \<and> heap_ok h'"
proof -
  from assms(1) have fresh: "cells h (next_free h) = None"
    unfolding heap_ok_def by (metis less_irrefl)
  have ok': "heap_ok (snd (heap_new h (Edge_copy d e)))"
    using assms(1) unfolding heap_ok_def heap_new_def by (auto simp: less_Suc_eq)
  show ?thesis
    using assms(2) fresh ok'
    by (simp add: CloneData_def heap_new_def Edge_copy_def)
qed

theorem CloneData_copies_data_witness:
  "heap_ok example_heap \<and> cells example_heap 0 = Some example_edge
   \<and> (\<exists>p h' c. CloneData (0::nat) example_heap 0 = Some (p, h') \<and> cells example_heap p = None
          \<and> cells h' p = Some c
          \<and> from_address c = 1 \<and> to_address c = 2 \<and> edge_type c = 3 \<and> properties c = [4]
          \<and> record_base c = 0 \<and> record_base example_edge = 5)"
proof -
  have ok: "heap_ok example_heap"
    by (simp add: heap_ok_def example_heap_def)
  have at: "cells example_heap 0 = Some example_edge"
    by (simp add: example_heap_def)
  from CloneData_copies_data [OF ok at, of 0] ok at show ?thesis
    by (auto simp: example_edge_def)
qed


section \<open>\<open>rpc::Client::Call\<close>\<close>

lemma receive_step_Received:
  "receive_step env rid w buf = Done (Received i resp, w', b') \<Longrightarrow> i = rid"
  by (auto simp: receive_step_def Let_def split: prod.splits if_splits sum.splits)

lemma receive_loop_Received:
  "receive_loop n env rid w buf = Some (Received i resp, w', b') \<Longrightarrow> i = rid"
proof (induction n arbitrary: w buf)
  case 0
  then show ?case by simp
next
  case (Suc n)
  then show ?case
    by (auto split: iteration.splits prod.splits dest: receive_step_Received)
qed

lemma Call_Received:
  assumes "Call fuel env c w req = Some (Received i resp, c', w')"
  shows "i = next_message_id c + 1 \<and> next_message_id c' = i"
  using assms
  by (auto simp: Call_def Let_def split: prod.splits if_splits option.splits received.splits bool.splits
      dest: receive_loop_Received)

lemma receive_step_stale:
  assumes rd: "Read env w (Allocate buf) = (bytes, w1)"
    and ne: "bytes \<noteq> []" and fits: "length bytes \<le> Allocate buf"
    and hdr: "sizeof_uint32 + sizeof_MessageSize \<le> length (stored buf @ bytes)"
    and rs: "response_size = sizeof_uint32 + sizeof_MessageSize
               + le_nat (take sizeof_MessageSize (drop sizeof_uint32 (stored buf @ bytes)))"
    and whole: "response_size \<le> length (stored buf @ bytes)"
    and des: "deserialize env (take (response_size - (sizeof_uint32 + sizeof_MessageSize))
                (drop (sizeof_uint32 + sizeof_MessageSize) (stored buf @ bytes))) = Inr resp"
    and stale: "word_of_nat (le_nat (take sizeof_uint32 (stored buf @ bytes))) \<noteq> request_id"
  shows "receive_step env request_id w buf
           = Continue (w1, Shift (Resize (Written buf bytes) response_size) response_size)"
proof -
  define s where "s = stored buf @ bytes"
  define k where "k = sizeof_uint32 + sizeof_MessageSize"
  define dsz where "dsz = le_nat (take sizeof_MessageSize (drop sizeof_uint32 s))"
  have tk: "take (Allocate buf) bytes = bytes"
    using fits by simp
  have st1: "stored (Written buf bytes) = s"
    by (simp add: Written_def s_def)
  have rs': "response_size = k + dsz"
    using rs by (simp add: k_def dsz_def s_def)
  have st2: "stored (Resize (Written buf bytes) (k + dsz)) = s"
    using st1 by (simp add: Resize_def)
  have c1: "\<not> size_buf (Written buf bytes) < k"
    using hdr by (simp add: size_buf_def st1 k_def s_def)
  have c2: "\<not> size_buf (Resize (Written buf bytes) (k + dsz)) < k + dsz"
    using whole by (simp add: size_buf_def st2 rs' s_def)
  have des': "deserialize env (take dsz (drop k s)) = Inr resp"
    using des by (simp add: rs' k_def s_def)
  have id': "word_of_nat (le_nat (take sizeof_uint32 s)) \<noteq> request_id"
    using stale by (simp add: s_def)
  show ?thesis
    unfolding receive_step_def rd Let_def prod.case tk st1 dsz_def [symmetric] k_def [symmetric]
      st2 rs'
    using ne c1 c2 des' id' by simp
qed

text \<open>
  Claim C9, amended. Whenever \<open>Client::Call\<close> returns a response, the id read from the
  received message equals the id of the request just sent, which is the incremented
  \<open>next_message_id_\<close>. When the buffer holds, after a read, a complete response with another
  id whose archive deserialises, the response is discarded: its \<open>response_size\<close> bytes are
  shifted out of the buffer and the loop goes on to its next iteration, which reads from the
  socket again.
\<close>

theorem Call_response_id:
  "(Call fuel env c w request = Some (Received i resp, c', w')
      \<longrightarrow> i = next_message_id c + 1 \<and> next_message_id c' = i)
   \<and> (Read env w0 (Allocate buf) = (bytes, w1) \<and> bytes \<noteq> [] \<and> length bytes \<le> Allocate buf
       \<and> sizeof_uint32 + sizeof_MessageSize \<le> length (stored buf @ bytes)
       \<and> response_size = sizeof_uint32 + sizeof_MessageSize
             + le_nat (take sizeof_MessageSize (drop sizeof_uint32 (stored buf @ bytes)))
       \<and> response_size \<le> length (stored buf @ bytes)
       \<and> deserialize env (take (response_size - (sizeof_uint32 + sizeof_MessageSize))
             (drop (sizeof_uint32 + sizeof_MessageSize) (stored buf @ bytes))) = Inr stale
       \<and> word_of_nat (le_nat (take sizeof_uint32 (stored buf @ bytes))) \<noteq> request_id
      \<longrightarrow> receive_loop (Suc n) env request_id w0 buf
            = receive_loop n env request_id w1 (Shift (Resize (Written buf bytes) response_size) response_size)
          \<and> stored (Shift (Resize (Written buf bytes) response_size) response_size)
            = drop response_size (stored buf @ bytes))"
proof (intro conjI impI)
  assume a: "Call fuel env c w request = Some (Received i resp, c', w')"
  show "i = next_message_id c + 1"
    using Call_Received [OF a] by simp
  show "next_message_id c' = i"
    using Call_Received [OF a] by simp
next
  assume h: "Read env w0 (Allocate buf) = (bytes, w1) \<and> bytes \<noteq> [] \<and> length bytes \<le> Allocate buf
       \<and> sizeof_uint32 + sizeof_MessageSize \<le> length (stored buf @ bytes)
       \<and> response_size = sizeof_uint32 + sizeof_MessageSize
             + le_nat (take sizeof_MessageSize (drop sizeof_uint32 (stored buf @ bytes)))
       \<and> response_size \<le> length (stored buf @ bytes)
       \<and> deserialize env (take (response_size - (sizeof_uint32 + sizeof_MessageSize))
             (drop (sizeof_uint32 + sizeof_MessageSize) (stored buf @ bytes))) = Inr stale
       \<and> word_of_nat (le_nat (take sizeof_uint32 (stored buf @ bytes))) \<noteq> request_id"
  then have "receive_step env request_id w0 buf
           = Continue (w1, Shift (Resize (Written buf bytes) response_size) response_size)"
    by (intro receive_step_stale) blast+
  then show "receive_loop (Suc n) env request_id w0 buf
            = receive_loop n env request_id w1 (Shift (Resize (Written buf bytes) response_size) response_size)"
    by simp
  show "stored (Shift (Resize (Written buf bytes) response_size) response_size)
            = drop response_size (stored buf @ bytes)"
    by (simp add: Shift_def Resize_def Written_def)
qed

lemmas buf_defs = Buffer_new_def kBufferInitialSize_def Allocate_def Written_def
      Resize_def Shift_def Clear_def size_buf_def sizeof_uint32_def sizeof_MessageSize_def

lemma example_step2:
  "receive_loop (Suc 0) example_env 1 [fresh_response] \<lparr>stored = [], capacity = 65536\<rparr>
     = Some (Received 1 (Some [5, 6]), [], \<lparr>stored = [], capacity = 65536\<rparr>)"
  by (simp add: example_env_def fresh_response_def receive_step_def buf_defs)

theorem Call_response_id_witness:
  "Call (Suc (Suc 0)) example_env example_client [stale_response, fresh_response] (Some [9])
     = Some (Received 1 (Some [5, 6]),
         \<lparr>socket = True, buffer = \<lparr>stored = [], capacity = 65536\<rparr>, next_message_id = 1,
          service_name = [115]\<rparr>, [])
   \<and> next_message_id example_client + 1 = 1
   \<and> receive_loop (Suc (Suc 0)) example_env 1 [stale_response, fresh_response] Buffer_new
     = receive_loop (Suc 0) example_env 1 [fresh_response] \<lparr>stored = [], capacity = 65536\<rparr>"
proof -
  have hyp: "Read example_env [stale_response, fresh_response] (Allocate Buffer_new) = (stale_response, [fresh_response])
       \<and> stale_response \<noteq> [] \<and> length stale_response \<le> Allocate Buffer_new
       \<and> sizeof_uint32 + sizeof_MessageSize \<le> length (stored Buffer_new @ stale_response)
       \<and> 9 = sizeof_uint32 + sizeof_MessageSize
             + le_nat (take sizeof_MessageSize (drop sizeof_uint32 (stored Buffer_new @ stale_response)))
       \<and> 9 \<le> length (stored Buffer_new @ stale_response)
       \<and> deserialize example_env (take (9 - (sizeof_uint32 + sizeof_MessageSize))
             (drop (sizeof_uint32 + sizeof_MessageSize) (stored Buffer_new @ stale_response))) = Inr (Some [42])
       \<and> word_of_nat (le_nat (take sizeof_uint32 (stored Buffer_new @ stale_response))) \<noteq> (1 :: 32 word)"
    by (simp add: example_env_def stale_response_def buf_defs)
  have shifted: "Shift (Resize (Written Buffer_new stale_response) 9) 9 = \<lparr>stored = [], capacity = 65536\<rparr>"
    by (simp add: stale_response_def buf_defs)
  have step: "receive_loop (Suc (Suc 0)) example_env 1 [stale_response, fresh_response] Buffer_new
     = receive_loop (Suc 0) example_env 1 [fresh_response] \<lparr>stored = [], capacity = 65536\<rparr>"
    using Call_response_id [of _ example_env _ _ _ _ _ _ _ "[stale_response, fresh_response]"
        Buffer_new stale_response "[fresh_response]" 9 "Some [42]" 1 "Suc 0",
        THEN conjunct2, THEN mp, OF hyp, THEN conjunct1]
    unfolding shifted .
  have rl: "receive_loop (Suc (Suc 0)) example_env 1 [stale_response, fresh_response] Buffer_new
     = Some (Received 1 (Some [5, 6]), [], \<lparr>stored = [], capacity = 65536\<rparr>)"
    unfolding step by (rule example_step2)
  have env: "ErrorStatus example_env = (\<lambda>w. False)" "Connect example_env = (\<lambda>w. (True, w))"
    "Write example_env = (\<lambda>w bs. (True, w))" "serialize example_env (Some [9]) = [9]"
    by (simp_all add: example_env_def)
  have clear: "Clear Buffer_new = Buffer_new"
    by (simp add: Clear_def Buffer_new_def)
  have call: "Call (Suc (Suc 0)) example_env example_client [stale_response, fresh_response] (Some [9])
     = Some (Received 1 (Some [5, 6]),
         \<lparr>socket = True, buffer = \<lparr>stored = [], capacity = 65536\<rparr>, next_message_id = 1,
          service_name = [115]\<rparr>, [])"
    by (simp add: Call_def example_client_def env clear rl MessageSize_max_def sizeof_MessageSize_def
        del: receive_loop.simps)
  show ?thesis
    using step call by (simp add: example_client_def del: receive_loop.simps)
qed

text \<open>
  The response is deserialised at lines 113 to 122, before \<open>Shift\<close> at line 124 and before
  the ids are compared at line 126. A complete response with the stale id 7, where the
  request has the id 1, whose archive makes \<open>response_archive >> response\<close> throw is
  therefore not discarded: the exception leaves \<open>Call\<close>, the nine bytes of the response are
  still in the buffer, and the client has not read the response that follows.
\<close>

theorem Call_response_id_counterexample:
  "word_of_nat (le_nat (take sizeof_uint32 malformed_response)) = (7 :: 32 word)
   \<and> next_message_id example_client + 1 = 1
   \<and> Call (Suc 0) strict_env example_client [malformed_response, fresh_response] (Some [9])
     = Some (Threw ArchiveException,
         \<lparr>socket = True, buffer = \<lparr>stored = malformed_response, capacity = 65536\<rparr>,
          next_message_id = 1, service_name = [115]\<rparr>, [fresh_response])"
proof -
  have rl: "receive_loop (Suc 0) strict_env 1 [malformed_response, fresh_response] Buffer_new
     = Some (Threw ArchiveException, [fresh_response], \<lparr>stored = malformed_response, capacity = 65536\<rparr>)"
    by (simp add: strict_env_def example_env_def malformed_response_def receive_step_def buf_defs)
  have env: "ErrorStatus strict_env = (\<lambda>w. False)" "Connect strict_env = (\<lambda>w. (True, w))"
    "Write strict_env = (\<lambda>w bs. (True, w))" "serialize strict_env (Some [9]) = [9]"
    by (simp_all add: strict_env_def example_env_def)
  have clear: "Clear Buffer_new = Buffer_new"
    by (simp add: Clear_def Buffer_new_def)
  have call: "Call (Suc 0) strict_env example_client [malformed_response, fresh_response] (Some [9])
     = Some (Threw ArchiveException,
         \<lparr>socket = True, buffer = \<lparr>stored = malformed_response, capacity = 65536\<rparr>,
          next_message_id = 1, service_name = [115]\<rparr>, [fresh_response])"
    by (simp add: Call_def example_client_def env clear rl MessageSize_max_def sizeof_MessageSize_def
        del: receive_loop.simps)
  have id7: "word_of_nat (le_nat (take sizeof_uint32 malformed_response)) = (7 :: 32 word)"
    by (simp add: malformed_response_def sizeof_uint32_def)
  show ?thesis
    using call id7 by (simp add: example_client_def del: receive_loop.simps)
qed

section \<open>The interpreter\<close>

subsection \<open>Missing parameters\<close>

lemma add_parameters_missing:
  "param_pair \<in> set ps \<Longrightarrow> params (snd param_pair) = None \<Longrightarrow>
     \<exists>msg. add_parameters ps params acc = Inl (UnprovidedParameterError msg)"
  by (induction ps arbitrary: acc) (auto split: option.splits)

text \<open>
  Claim C4. When the stripped query records a user parameter whose name is not in the
  supplied parameter map, \<open>Interpret\<close> throws \<open>UnprovidedParameterError\<close>. The cache and the
  stream are as before the call, whatever the parser, the planner and the cursors would
  have done: nothing was compiled, executed or streamed.
\<close>

theorem Interpret_unprovided_parameter:
  assumes "Strip col query = Inr stripped"
    and "(pos, nm) \<in> set (parameters stripped)"
    and "params nm = None"
  shows "\<exists>msg. Interpret fuel col flags rd self query db stream params explicit
           = Some (self, stream, Inl (UnprovidedParameterError msg))"
proof -
  from add_parameters_missing [of "(pos, nm)" "parameters stripped" params "literals stripped"] assms
  obtain msg where "add_parameters (parameters stripped) params (literals stripped)
      = Inl (UnprovidedParameterError msg)"
    by auto
  with assms(1) have "prepare col query db params explicit = Inl (UnprovidedParameterError msg)"
    by (simp add: prepare_def)
  then show ?thesis
    by (simp add: Interpret_def)
qed

theorem Interpret_unprovided_parameter_witness:
  "Strip (example_col Once) ''RETURN $x'' = Inr example_stripped
   \<and> (3, ''x'') \<in> set (parameters example_stripped)
   \<and> (Map.empty :: string \<rightharpoonup> TypedValue) ''x'' = None
   \<and> (\<exists>msg. Interpret 5 (example_col Once) example_flags example_readings example_interpreter
          ''RETURN $x'' (0::nat) [] Map.empty False
        = Some (example_interpreter, [], Inl (UnprovidedParameterError msg)))"
proof -
  have a: "Strip (example_col Once) ''RETURN $x'' = Inr example_stripped"
    by (simp add: example_col_def)
  have b: "(3, ''x'') \<in> set (parameters example_stripped)"
    by (simp add: example_stripped_def)
  have c: "(Map.empty :: string \<rightharpoonup> TypedValue) ''x'' = None"
    by simp
  from Interpret_unprovided_parameter [OF a b c] a b show ?thesis
    by simp
qed

subsection \<open>What the stream receives\<close>

lemma pull_all_step_eq:
  "pull_all_step col (cursor, frame, ctx, stream) =
     (case Pull col cursor frame ctx of
        Inl e \<Rightarrow> Done (stream, Inl e)
      | Inr (pulled, cursor1, frame1, ctx1) \<Rightarrow>
          if pulled then Continue (cursor1, frame1, ctx1, stream) else Done (stream, Inr ctx1))"
  by (simp add: pull_all_step_def)

lemma stream_results_step_eq:
  "stream_results_step col syms (cursor, frame, ctx, stream) =
     (case Pull col cursor frame ctx of
        Inl e \<Rightarrow> Done (stream, Inl e)
      | Inr (pulled, cursor1, frame1, ctx1) \<Rightarrow>
          if pulled then
            (case frame_values frame1 syms of
               None \<Rightarrow> Done (stream, Inl FrameOutOfRange)
             | Some values \<Rightarrow> Continue (cursor1, frame1, ctx1, stream @ [Result values]))
          else Done (stream, Inr ctx1))"
  by (simp add: stream_results_step_def)

lemma loop_pull_all_stream:
  "loop fuel (pull_all_step col) (cursor, frame, ctx, stream) = Some (stream1, r) \<Longrightarrow> stream1 = stream"
proof (induction fuel arbitrary: cursor frame ctx)
  case 0
  then show ?case by simp
next
  case (Suc n)
  show ?case
  proof (cases "Pull col cursor frame ctx")
    case (Inl e)
    with Suc.prems show ?thesis by (simp add: pull_all_step_eq)
  next
    case (Inr res)
    obtain pulled c1 f1 x1 where res: "res = (pulled, c1, f1, x1)"
      by (cases res)
    show ?thesis
    proof (cases pulled)
      case True
      with Suc.prems Inr res have "loop n (pull_all_step col) (c1, f1, x1, stream) = Some (stream1, r)"
        by (simp add: pull_all_step_eq)
      then show ?thesis by (rule Suc.IH)
    next
      case False
      with Suc.prems Inr res show ?thesis by (simp add: pull_all_step_eq)
    qed
  qed
qed

lemma loop_stream_results_stream:
  "loop fuel (stream_results_step col syms) (cursor, frame, ctx, stream) = Some (stream1, r) \<Longrightarrow>
     \<exists>rows. stream1 = stream @ map Result rows"
proof (induction fuel arbitrary: cursor frame ctx stream)
  case 0
  then show ?case by simp
next
  case (Suc n)
  show ?case
  proof (cases "Pull col cursor frame ctx")
    case (Inl e)
    with Suc.prems have "stream1 = stream @ map Result []"
      by (simp add: stream_results_step_eq)
    then show ?thesis by blast
  next
    case (Inr res)
    obtain pulled c1 f1 x1 where res: "res = (pulled, c1, f1, x1)"
      by (cases res)
    show ?thesis
    proof (cases pulled)
      case True
      show ?thesis
      proof (cases "frame_values f1 syms")
        case None
        with Suc.prems Inr res True have "stream1 = stream @ map Result []"
          by (simp add: stream_results_step_eq)
        then show ?thesis by blast
      next
        case (Some vs)
        with Suc.prems Inr res True
        have "loop n (stream_results_step col syms) (c1, f1, x1, stream @ [Result vs]) = Some (stream1, r)"
          by (simp add: stream_results_step_eq)
        from Suc.IH [OF this] obtain rows where "stream1 = (stream @ [Result vs]) @ map Result rows"
          by blast
        then have "stream1 = stream @ map Result (vs # rows)"
          by simp
        then show ?thesis by blast
      qed
    next
      case False
      with Suc.prems Inr res have "stream1 = stream @ map Result []"
        by (simp add: stream_results_step_eq)
      then show ?thesis by blast
    qed
  qed
qed

lemma ExecutePlan_stream:
  assumes "ExecutePlan fuel col stream logical_plan ctx stripped = Some (stream1, Inr ctx1)"
  shows "\<exists>header rows. stream1 = stream @ Header header # map Result rows"
proof (cases "OutputSymbols col logical_plan (ctx_symbol_table ctx) = []")
  case True
  with assms have side: "is_side_effect_root logical_plan"
    by (auto simp: ExecutePlan_def Let_def split: if_splits)
  with assms True have "stream1 = stream @ [Header []]"
    by (auto simp: ExecutePlan_def Let_def dest: loop_pull_all_stream)
  then have "stream1 = stream @ Header [] # map Result []"
    by simp
  then show ?thesis by blast
next
  case False
  with assms obtain rows where
    "stream1 = (stream @ [Header (make_header stripped (OutputSymbols col logical_plan (ctx_symbol_table ctx)))])
       @ map Result rows"
    by (auto simp: ExecutePlan_def Let_def dest: loop_stream_results_stream)
  then show ?thesis by auto
qed

lemma Interpret_success:
  assumes "Interpret fuel col flags rd self query db stream params explicit = Some (self1, stream1, Inr ctx1)"
  shows "\<exists>stripped ctx cache1 cached cache2 cp ctx0 stream0.
           prepare col query db params explicit = Inr (stripped, ctx)
         \<and> find_cached_plan flags (at_lookup rd) (plan_cache self) (hash stripped) = (cache1, cached)
         \<and> plan_or_compile col flags rd stripped ctx cache1 cached = Inr (cache2, cp, ctx0)
         \<and> ExecutePlan fuel col stream (plan cp) (ctx0\<lparr>ctx_symbol_table := symbol_table cp\<rparr>) stripped
             = Some (stream0, Inr ctx1)
         \<and> stream1 = stream0 @ [Summary (make_summary rd cp)]
         \<and> self1 = self\<lparr>plan_cache := (if is_index_created ctx1 then remove_all cache2 else cache2)\<rparr>"
  using assms
  by (auto simp: Interpret_def Let_def split: sum.splits prod.splits option.splits)

lemma dom_make_summary:
  "dom (make_summary rd cp)
     = {''parsing_time'', ''planning_time'', ''plan_execution_time'', ''cost_estimate'', ''type''}"
  by (auto simp: make_summary_def)

lemma type_make_summary: "make_summary rd cp ''type'' = Some (TString ''rw'')"
  by (simp add: make_summary_def)

text \<open>
  Claim C6. When \<open>Interpret\<close> completes without an exception, the stream has received one
  header, the rows and then the summary; the keys of the summary are exactly
  \<open>parsing_time\<close>, \<open>planning_time\<close>, \<open>plan_execution_time\<close>, \<open>cost_estimate\<close> and \<open>type\<close>,
  and \<open>type\<close> is the string \<open>rw\<close>, whatever the plan is.
\<close>

theorem Interpret_summary:
  assumes "Interpret fuel col flags rd self query db stream params explicit = Some (self1, stream1, Inr ctx1)"
  shows "\<exists>header rows summary.
           stream1 = stream @ Header header # map Result rows @ [Summary summary]
         \<and> dom summary
             = {''parsing_time'', ''planning_time'', ''plan_execution_time'', ''cost_estimate'', ''type''}
         \<and> summary ''type'' = Some (TString ''rw'')"
proof -
  from Interpret_success [OF assms] obtain stripped ctx cache1 cached cache2 cp ctx0 stream0 where
    pc: "plan_or_compile col flags rd stripped ctx cache1 cached = Inr (cache2, cp, ctx0)"
    and ex: "ExecutePlan fuel col stream (plan cp) (ctx0\<lparr>ctx_symbol_table := symbol_table cp\<rparr>) stripped
           = Some (stream0, Inr ctx1)"
    and s1: "stream1 = stream0 @ [Summary (make_summary rd cp)]"
    by blast
  from ExecutePlan_stream [OF ex] obtain header rows where
    "stream0 = stream @ Header header # map Result rows"
    by blast
  with s1 have "stream1 = stream @ Header header # map Result rows @ [Summary (make_summary rd cp)]"
    by simp
  with dom_make_summary [of rd cp] type_make_summary [of rd cp] show ?thesis
    by blast
qed

subsection \<open>The interpreter at the concrete inputs\<close>

lemma example_prepare:
  "prepare (example_col root_op) q 0 example_params explicit
     = Inr (example_stripped, example_ctx\<lparr>in_explicit_transaction := explicit\<rparr>)"
  by (simp add: prepare_def example_col_def example_stripped_def example_params_def Context_new_def
      Parameters_Add_def example_ctx_def)

lemma example_find:
  "find_cached_plan example_flags (at_lookup example_readings) [(7, example_plan)]
     (hash example_stripped) = ([(7, example_plan)], None)"
  by (simp add: find_cached_plan_def example_stripped_def cmap_find_def)

lemma example_compile:
  "plan_or_compile (example_col root_op) example_flags example_readings example_stripped
     (example_ctx\<lparr>in_explicit_transaction := explicit\<rparr>) [(7, example_plan)] None
     = Inr ([(7, example_plan), (42, example_fresh_plan root_op)], example_fresh_plan root_op,
            example_ctx\<lparr>in_explicit_transaction := explicit\<rparr>)"
  by (simp add: plan_or_compile_def example_col_def example_flags_def example_readings_def
      example_stripped_def cmap_insert_def cmap_find_def example_fresh_plan_def example_ctx_def Let_def)

lemma example_execute:
  "ExecutePlan (Suc (Suc fuel)) (example_col (Leaf CreateIndex)) [] (Leaf CreateIndex) example_ctx example_stripped
     = Some ([Header []], Inr (example_ctx\<lparr>db_accessor := 1, is_index_created := True\<rparr>))"
  by (simp add: ExecutePlan_def pull_all_step_eq example_col_def example_ctx_def)

lemma example_execute_explicit:
  "ExecutePlan (Suc fuel) (example_col (Leaf CreateIndex)) [] (Leaf CreateIndex)
     (example_ctx\<lparr>in_explicit_transaction := True\<rparr>) example_stripped
     = Some ([Header []], Inl (OtherException ''index in multicommand transaction''))"
  by (simp add: ExecutePlan_def pull_all_step_eq example_col_def example_ctx_def)

lemma example_execute_unknown:
  "ExecutePlan fuel (example_col Once) [] Once example_ctx example_stripped
     = Some ([], Inl (QueryRuntimeException ''Unknown top level LogicalOperator''))"
  by (simp add: ExecutePlan_def example_col_def example_ctx_def)

lemma remove_all_lemma:
  "fold (\<lambda>cached_plan accessor. cmap_remove accessor (fst cached_plan)) xs ys
     = filter (\<lambda>entry. fst entry \<notin> fst ` set xs) ys"
  by (induction xs arbitrary: ys) (auto simp: cmap_remove_def intro: filter_cong)

lemma remove_all_empty: "remove_all cache = []"
  by (simp add: remove_all_def remove_all_lemma)

lemma example_ctx_simps:
  "example_ctx\<lparr>in_explicit_transaction := False, ctx_symbol_table := SymbolTable_new\<rparr> = example_ctx"
  "example_ctx\<lparr>in_explicit_transaction := True, ctx_symbol_table := SymbolTable_new\<rparr>
     = example_ctx\<lparr>in_explicit_transaction := True\<rparr>"
  by (simp_all add: example_ctx_def)

lemma example_plan_simps:
  "plan (example_fresh_plan root_op) = root_op"
  "symbol_table (example_fresh_plan root_op) = SymbolTable_new"
  by (simp_all add: example_fresh_plan_def)

lemma example_Interpret:
  "Interpret (Suc (Suc 0)) (example_col (Leaf CreateIndex)) example_flags example_readings example_interpreter
     ''CREATE INDEX ON :L(p)'' 0 [] example_params False
   = Some (\<lparr>plan_cache = []\<rparr>,
           [Header [], Summary (make_summary example_readings (example_fresh_plan (Leaf CreateIndex)))],
           Inr (example_ctx\<lparr>db_accessor := 1, is_index_created := True\<rparr>))"
  by (simp add: Interpret_def example_prepare example_find example_compile example_ctx_simps
      example_execute remove_all_empty example_plan_simps example_interpreter_def)

lemma example_Interpret_explicit:
  "Interpret (Suc (Suc 0)) (example_col (Leaf CreateIndex)) example_flags example_readings example_interpreter
     ''CREATE INDEX ON :L(p)'' 0 [] example_params True
   = Some (\<lparr>plan_cache = [(7, example_plan), (42, example_fresh_plan (Leaf CreateIndex))]\<rparr>,
           [Header []], Inl (OtherException ''index in multicommand transaction''))"
  by (simp add: Interpret_def example_prepare example_find example_compile example_ctx_simps
      example_execute_explicit example_plan_simps example_interpreter_def)

lemma example_Interpret_unknown:
  "Interpret fuel (example_col Once) example_flags example_readings example_interpreter
     ''MATCH (n)'' 0 [] example_params False
   = Some (\<lparr>plan_cache = [(7, example_plan), (42, example_fresh_plan Once)]\<rparr>,
           [], Inl (QueryRuntimeException ''Unknown top level LogicalOperator''))"
  by (simp add: Interpret_def example_prepare example_find example_compile example_ctx_simps
      example_execute_unknown example_plan_simps example_interpreter_def)

theorem Interpret_summary_witness:
  "Interpret (Suc (Suc 0)) (example_col (Leaf CreateIndex)) example_flags example_readings
       example_interpreter ''CREATE INDEX ON :L(p)'' 0 [] example_params False
     = Some (\<lparr>plan_cache = []\<rparr>,
           [Header [], Summary (make_summary example_readings (example_fresh_plan (Leaf CreateIndex)))],
           Inr (example_ctx\<lparr>db_accessor := 1, is_index_created := True\<rparr>))
   \<and> (\<exists>header rows summary.
         [Header [], Summary (make_summary example_readings (example_fresh_plan (Leaf CreateIndex)))]
           = [] @ Header header # map Result rows @ [Summary summary]
       \<and> dom summary
           = {''parsing_time'', ''planning_time'', ''plan_execution_time'', ''cost_estimate'', ''type''}
       \<and> summary ''type'' = Some (TString ''rw''))"
  using Interpret_summary [OF example_Interpret] example_Interpret by blast

subsection \<open>Index creation and the plan cache\<close>

lemma Interpret_execute_fails:
  assumes "prepare col query db params explicit = Inr (stripped, ctx)"
    and "find_cached_plan flags (at_lookup rd) (plan_cache self) (hash stripped) = (cache1, cached)"
    and "plan_or_compile col flags rd stripped ctx cache1 cached = Inr (cache2, cp, ctx0)"
    and "ExecutePlan fuel col stream (plan cp) (ctx0\<lparr>ctx_symbol_table := symbol_table cp\<rparr>) stripped
           = Some (stream2, Inl e)"
  shows "Interpret fuel col flags rd self query db stream params explicit
           = Some (self\<lparr>plan_cache := cache2\<rparr>, stream2, Inl e)"
  using assms by (simp add: Interpret_def)























subsection \<open>Plans without output symbols\<close>

lemma is_side_effect_root_iff:
  "is_side_effect_root p \<longleftrightarrow>
     (\<exists>k input. p = Unary k input
        \<and> (k = CreateNode \<or> k = CreateExpand \<or> k = SetProperty \<or> k = SetProperties \<or> k = SetLabels
           \<or> k = RemoveProperty \<or> k = RemoveLabels \<or> k = Delete))
     \<or> (\<exists>input merge_match merge_create. p = Merge input merge_match merge_create)
     \<or> p = Leaf CreateIndex"
proof (cases p)
  case (Unary k input)
  then show ?thesis by (cases k) simp_all
next
  case (Leaf k)
  then show ?thesis by (cases k) simp_all
qed simp_all

lemma loop_pull_all_drains:
  "after_pulls col n (cursor0, frame0, ctx0) = Some (cursor, frame, ctx1) \<Longrightarrow>
   Pull col cursor frame ctx1 = Inr (False, cursor2, frame2, ctx2) \<Longrightarrow> n < fuel \<Longrightarrow>
   loop fuel (pull_all_step col) (cursor0, frame0, ctx0, stream) = Some (stream, Inr ctx2)"
proof (induction n arbitrary: cursor0 frame0 ctx0 fuel)
  case 0
  then obtain m where "fuel = Suc m"
    by (cases fuel) auto
  with 0 show ?case
    by (simp add: pull_all_step_eq)
next
  case (Suc n)
  from Suc.prems(3) obtain m where fuel: "fuel = Suc m" and m: "n < m"
    by (cases fuel) auto
  from Suc.prems(1) obtain c1 f1 x1 where
    pull: "Pull col cursor0 frame0 ctx0 = Inr (True, c1, f1, x1)"
    and rest: "after_pulls col n (c1, f1, x1) = Some (cursor, frame, ctx1)"
    by (auto split: sum.splits prod.splits bool.splits)
  from Suc.IH [OF rest Suc.prems(2) m]
  have "loop m (pull_all_step col) (c1, f1, x1, stream) = Some (stream, Inr ctx2)" .
  with pull fuel show ?case
    by (simp add: pull_all_step_eq)
qed

lemma ExecutePlan_side_effect:
  assumes "OutputSymbols col logical_plan (ctx_symbol_table ctx) = []"
    and "is_side_effect_root logical_plan"
  shows "ExecutePlan fuel col stream logical_plan ctx stripped
           = loop fuel (pull_all_step col)
               (MakeCursor col logical_plan (db_accessor ctx),
                Frame_new (max_position (ctx_symbol_table ctx)), ctx, stream @ [Header []])"
  using assms by (simp add: ExecutePlan_def)

lemma ExecutePlan_unknown:
  assumes "OutputSymbols col logical_plan (ctx_symbol_table ctx) = []"
    and "\<not> is_side_effect_root logical_plan"
  shows "ExecutePlan fuel col stream logical_plan ctx stripped
           = Some (stream, Inl (QueryRuntimeException ''Unknown top level LogicalOperator''))"
  using assms by (simp add: ExecutePlan_def)

text \<open>
  Claim C3. For a plan whose root yields no output symbols: the root goes through the
  casts exactly when it is one of \<open>CreateNode\<close>, \<open>CreateExpand\<close>, \<open>SetProperty\<close>,
  \<open>SetProperties\<close>, \<open>SetLabels\<close>, \<open>RemoveProperty\<close>, \<open>RemoveLabels\<close>, \<open>Delete\<close>, \<open>Merge\<close> or
  \<open>CreateIndex\<close>. Then the stream receives the empty header and nothing else, and the
  cursor is pulled until it reports exhaustion: when that is the case after \<open>n\<close> rows and
  the loop may make more than \<open>n\<close> pulls, \<open>ExecutePlan\<close> returns with the context that the
  last pull left. For every other root \<open>ExecutePlan\<close> throws \<open>QueryRuntimeException\<close> (the
  specification's \<open>QueryRuntimeError\<close>) with the stream as it was, and \<open>Interpret\<close> throws
  it on without a summary.
\<close>

theorem ExecutePlan_no_output_symbols:
  "(is_side_effect_root logical_plan \<longleftrightarrow>
       (\<exists>k input. logical_plan = Unary k input
          \<and> (k = CreateNode \<or> k = CreateExpand \<or> k = SetProperty \<or> k = SetProperties \<or> k = SetLabels
             \<or> k = RemoveProperty \<or> k = RemoveLabels \<or> k = Delete))
       \<or> (\<exists>input merge_match merge_create. logical_plan = Merge input merge_match merge_create)
       \<or> logical_plan = Leaf CreateIndex)
   \<and> (OutputSymbols col logical_plan (ctx_symbol_table ctx) = [] \<and> is_side_effect_root logical_plan
       \<longrightarrow> (\<forall>stream1 r. ExecutePlan fuel col stream logical_plan ctx stripped = Some (stream1, r)
               \<longrightarrow> stream1 = stream @ [Header []])
         \<and> (\<forall>n cursor frame ctx1 cursor2 frame2 ctx2.
               after_pulls col n (MakeCursor col logical_plan (db_accessor ctx),
                                  Frame_new (max_position (ctx_symbol_table ctx)), ctx)
                 = Some (cursor, frame, ctx1)
               \<and> Pull col cursor frame ctx1 = Inr (False, cursor2, frame2, ctx2) \<and> n < fuel
               \<longrightarrow> ExecutePlan fuel col stream logical_plan ctx stripped
                     = Some (stream @ [Header []], Inr ctx2)))
   \<and> (OutputSymbols col logical_plan (ctx_symbol_table ctx) = [] \<and> \<not> is_side_effect_root logical_plan
       \<longrightarrow> ExecutePlan fuel col stream logical_plan ctx stripped
             = Some (stream, Inl (QueryRuntimeException ''Unknown top level LogicalOperator'')))
   \<and> (prepare col query db params explicit = Inr (stripped, ctx0)
       \<and> find_cached_plan flags (at_lookup rd) (plan_cache self) (hash stripped) = (cache1, cached)
       \<and> plan_or_compile col flags rd stripped ctx0 cache1 cached = Inr (cache2, cp, ctx3)
       \<and> OutputSymbols col (plan cp) (symbol_table cp) = [] \<and> \<not> is_side_effect_root (plan cp)
       \<longrightarrow> Interpret fuel col flags rd self query db stream params explicit
             = Some (self\<lparr>plan_cache := cache2\<rparr>, stream,
                     Inl (QueryRuntimeException ''Unknown top level LogicalOperator'')))"
proof (intro conjI impI allI)
  show "is_side_effect_root logical_plan \<longleftrightarrow>
       (\<exists>k input. logical_plan = Unary k input
          \<and> (k = CreateNode \<or> k = CreateExpand \<or> k = SetProperty \<or> k = SetProperties \<or> k = SetLabels
             \<or> k = RemoveProperty \<or> k = RemoveLabels \<or> k = Delete))
       \<or> (\<exists>input merge_match merge_create. logical_plan = Merge input merge_match merge_create)
       \<or> logical_plan = Leaf CreateIndex"
    by (rule is_side_effect_root_iff)
next
  fix stream1 r
  assume a: "OutputSymbols col logical_plan (ctx_symbol_table ctx) = [] \<and> is_side_effect_root logical_plan"
    and b: "ExecutePlan fuel col stream logical_plan ctx stripped = Some (stream1, r)"
  from a b have "loop fuel (pull_all_step col)
               (MakeCursor col logical_plan (db_accessor ctx),
                Frame_new (max_position (ctx_symbol_table ctx)), ctx, stream @ [Header []]) = Some (stream1, r)"
    by (simp add: ExecutePlan_side_effect)
  then show "stream1 = stream @ [Header []]"
    by (rule loop_pull_all_stream)
next
  fix n cursor frame ctx1 cursor2 frame2 ctx2
  assume a: "OutputSymbols col logical_plan (ctx_symbol_table ctx) = [] \<and> is_side_effect_root logical_plan"
    and b: "after_pulls col n (MakeCursor col logical_plan (db_accessor ctx),
                                  Frame_new (max_position (ctx_symbol_table ctx)), ctx)
                 = Some (cursor, frame, ctx1)
               \<and> Pull col cursor frame ctx1 = Inr (False, cursor2, frame2, ctx2) \<and> n < fuel"
  from b have "loop fuel (pull_all_step col)
               (MakeCursor col logical_plan (db_accessor ctx),
                Frame_new (max_position (ctx_symbol_table ctx)), ctx, stream @ [Header []])
             = Some (stream @ [Header []], Inr ctx2)"
    by (intro loop_pull_all_drains) blast+
  with a show "ExecutePlan fuel col stream logical_plan ctx stripped = Some (stream @ [Header []], Inr ctx2)"
    by (simp add: ExecutePlan_side_effect)
next
  assume "OutputSymbols col logical_plan (ctx_symbol_table ctx) = [] \<and> \<not> is_side_effect_root logical_plan"
  then show "ExecutePlan fuel col stream logical_plan ctx stripped
             = Some (stream, Inl (QueryRuntimeException ''Unknown top level LogicalOperator''))"
    by (simp add: ExecutePlan_unknown)
next
  assume a: "prepare col query db params explicit = Inr (stripped, ctx0)
       \<and> find_cached_plan flags (at_lookup rd) (plan_cache self) (hash stripped) = (cache1, cached)
       \<and> plan_or_compile col flags rd stripped ctx0 cache1 cached = Inr (cache2, cp, ctx3)
       \<and> OutputSymbols col (plan cp) (symbol_table cp) = [] \<and> \<not> is_side_effect_root (plan cp)"
  then have "ExecutePlan fuel col stream (plan cp) (ctx3\<lparr>ctx_symbol_table := symbol_table cp\<rparr>) stripped
      = Some (stream, Inl (QueryRuntimeException ''Unknown top level LogicalOperator''))"
    by (simp add: ExecutePlan_unknown)
  with a show "Interpret fuel col flags rd self query db stream params explicit
             = Some (self\<lparr>plan_cache := cache2\<rparr>, stream,
                     Inl (QueryRuntimeException ''Unknown top level LogicalOperator''))"
    by (intro Interpret_execute_fails) blast+
qed


theorem ExecutePlan_no_output_symbols_witness:
  "is_side_effect_root (Leaf CreateIndex)
   \<and> OutputSymbols (example_col (Leaf CreateIndex)) (Leaf CreateIndex) (ctx_symbol_table example_ctx) = []
   \<and> ExecutePlan (Suc (Suc 0)) (example_col (Leaf CreateIndex)) [] (Leaf CreateIndex) example_ctx example_stripped
       = Some ([] @ [Header []], Inr (example_ctx\<lparr>db_accessor := 1, is_index_created := True\<rparr>))
   \<and> \<not> is_side_effect_root Once
   \<and> OutputSymbols (example_col Once) Once (ctx_symbol_table example_ctx) = []
   \<and> ExecutePlan 0 (example_col Once) [] Once example_ctx example_stripped
       = Some ([], Inl (QueryRuntimeException ''Unknown top level LogicalOperator''))
   \<and> Interpret 0 (example_col Once) example_flags example_readings example_interpreter
        ''MATCH (n)'' 0 [] example_params False
       = Some (example_interpreter\<lparr>plan_cache := [(7, example_plan), (42, example_fresh_plan Once)]\<rparr>, [],
               Inl (QueryRuntimeException ''Unknown top level LogicalOperator''))"
proof -
  let ?ci = "Leaf CreateIndex"
  let ?ctx1 = "example_ctx\<lparr>db_accessor := 1, is_index_created := True\<rparr>"
  have side: "is_side_effect_root ?ci" and other: "\<not> is_side_effect_root Once"
    by simp_all
  have out: "OutputSymbols (example_col ?ci) ?ci (ctx_symbol_table example_ctx) = []"
    and out': "OutputSymbols (example_col Once) Once (ctx_symbol_table example_ctx) = []"
    by (simp_all add: example_col_def)
  have pulls: "after_pulls (example_col ?ci) (Suc 0)
        (MakeCursor (example_col ?ci) ?ci (db_accessor example_ctx),
         Frame_new (max_position (ctx_symbol_table example_ctx)), example_ctx)
      = Some (1, [], ?ctx1)
    \<and> Pull (example_col ?ci) 1 [] ?ctx1 = Inr (False, 1, [], ?ctx1) \<and> Suc 0 < Suc (Suc 0)"
    by (simp add: example_col_def example_ctx_def Frame_new_def SymbolTable_new_def)
  note T1 = ExecutePlan_no_output_symbols [where logical_plan = ?ci and col = "example_col ?ci"
      and ctx = example_ctx and fuel = "Suc (Suc 0)" and stream = "[]" and stripped = example_stripped,
      THEN conjunct2, THEN conjunct1, THEN mp, OF conjI, OF out side, THEN conjunct2, THEN spec,
      THEN spec, THEN spec, THEN spec, THEN spec, THEN spec, THEN spec, THEN mp, OF pulls]
  have prep: "prepare (example_col Once) ''MATCH (n)'' 0 example_params False = Inr (example_stripped, example_ctx)
       \<and> find_cached_plan example_flags (at_lookup example_readings) (plan_cache example_interpreter)
            (hash example_stripped) = ([(7, example_plan)], None)
       \<and> plan_or_compile (example_col Once) example_flags example_readings example_stripped example_ctx
            [(7, example_plan)] None
          = Inr ([(7, example_plan), (42, example_fresh_plan Once)], example_fresh_plan Once, example_ctx)
       \<and> OutputSymbols (example_col Once) (plan (example_fresh_plan Once)) (symbol_table (example_fresh_plan Once)) = []
       \<and> \<not> is_side_effect_root (plan (example_fresh_plan Once))"
    using example_prepare [of Once "''MATCH (n)''" False] example_find example_compile [of Once False]
    by (simp add: example_interpreter_def example_plan_simps example_col_def example_ctx_def)
  note T2 = ExecutePlan_no_output_symbols [where logical_plan = Once and col = "example_col Once"
      and ctx = example_ctx and fuel = 0 and stream = "[]" and stripped = example_stripped
      and query = "''MATCH (n)''" and db = 0 and params = example_params and explicit = False
      and self = example_interpreter and flags = example_flags and rd = example_readings]
  note T3 = T2 [THEN conjunct2, THEN conjunct2, THEN conjunct1, THEN mp, OF conjI, OF out' other]
  note T4 = T2 [THEN conjunct2, THEN conjunct2, THEN conjunct2, THEN mp, OF prep]
  from side other out out' T1 T3 T4 show ?thesis
    by simp
qed

subsection \<open>Expiry of cached plans\<close>

lemma cmap_find_remove: "cmap_find (cmap_remove cache h) h = None"
  by (simp add: cmap_find_def cmap_remove_def map_of_eq_None_iff image_iff)

lemma find_cached_plan_expired:
  assumes "cmap_find cache h = Some cp" and "IsExpired flags elapsed_of cp"
  shows "find_cached_plan flags elapsed_of cache h = (cmap_remove cache h, None)"
  using assms by (simp add: find_cached_plan_def)

lemma find_cached_plan_fresh:
  assumes "cmap_find cache h = Some cp" and "\<not> IsExpired flags elapsed_of cp"
  shows "find_cached_plan flags elapsed_of cache h = (cache, Some cp)"
  using assms by (simp add: find_cached_plan_def)

lemma find_cached_plan_removed:
  "find_cached_plan flags elapsed_of (cmap_remove cache h) h = (cmap_remove cache h, None)"
  by (simp add: find_cached_plan_def cmap_find_remove)

lemma IsExpired_eq:
  "IsExpired flags elapsed_of cp
     \<longleftrightarrow> query_plan_cache_ttl flags < duration_cast_seconds (elapsed_of (cache_timer cp))"
  by (simp add: IsExpired_def)

lemma plan_or_compile_miss:
  assumes "QueryToAst col stripped ctx = Inr (ast, ctx1)"
    and "SymbolGenerator col ast (ctx_symbol_table ctx1) = Inr st"
    and "MakeLogicalPlan col ast (db_accessor ctx1) (ctx1\<lparr>ctx_symbol_table := st\<rparr>)
           = Inr (p, c, ast1, ctx2)"
    and "cmap_find cache (hash stripped) = None"
  shows "plan_or_compile col flags rd stripped ctx cache None
           = Inr (if query_plan_cache flags
                  then cache @ [(hash stripped,
                         \<lparr>plan = p, cost = c, symbol_table = ctx_symbol_table ctx2, ast_storage = ast1,
                          cache_timer = at_plan_creation rd\<rparr>)]
                  else cache,
                  \<lparr>plan = p, cost = c, symbol_table = ctx_symbol_table ctx2, ast_storage = ast1,
                   cache_timer = at_plan_creation rd\<rparr>, ctx2)"
  using assms by (simp add: plan_or_compile_def cmap_insert_def Let_def)

lemma Interpret_expired_as_miss:
  assumes "prepare col query db params explicit = Inr (stripped, ctx)"
    and "cmap_find cache (hash stripped) = Some cp"
    and "IsExpired flags (at_lookup rd) cp"
  shows "Interpret fuel col flags rd (self\<lparr>plan_cache := cache\<rparr>) query db stream params explicit
       = Interpret fuel col flags rd (self\<lparr>plan_cache := cmap_remove cache (hash stripped)\<rparr>)
           query db stream params explicit"
  using assms
  by (simp add: Interpret_def find_cached_plan_expired find_cached_plan_removed Let_def
      split: sum.splits option.splits prod.splits)

text \<open>
  Claim C5, amended. The age of a cached plan is what \<open>Elapsed()\<close> of its timer returns at
  the lookup, in seconds, and it is compared in whole seconds: the plan is expired when its
  age, with the fraction of a second dropped, exceeds \<open>query_plan_cache_ttl\<close>. On a lookup an
  expired plan is removed from the cache and the lookup is a miss: \<open>Interpret\<close> goes on as
  it does from the cache without the entry, the query is compiled, and the new plan is
  inserted when \<open>query_plan_cache\<close> is set. A plan that is not expired is returned, and no
  code of the parser or planner runs.
\<close>

theorem find_cached_plan_expiry:
  assumes "cmap_find cache h = Some cp"
  shows "(query_plan_cache_ttl flags < duration_cast_seconds (elapsed_of (cache_timer cp))
          \<longrightarrow> find_cached_plan flags elapsed_of cache h = (cmap_remove cache h, None)
            \<and> cmap_find (cmap_remove cache h) h = None
            \<and> (prepare col query db params explicit = Inr (stripped, ctx) \<and> hash stripped = h
                  \<and> at_lookup rd = elapsed_of
                \<longrightarrow> Interpret fuel col flags rd (self\<lparr>plan_cache := cache\<rparr>) query db stream params explicit
                    = Interpret fuel col flags rd (self\<lparr>plan_cache := cmap_remove cache h\<rparr>)
                        query db stream params explicit)
            \<and> (hash stripped = h \<and> QueryToAst col stripped ctx = Inr (ast, ctx1)
                  \<and> SymbolGenerator col ast (ctx_symbol_table ctx1) = Inr st
                  \<and> MakeLogicalPlan col ast (db_accessor ctx1) (ctx1\<lparr>ctx_symbol_table := st\<rparr>)
                      = Inr (p, c, ast1, ctx2)
                \<longrightarrow> plan_or_compile col flags rd stripped ctx (cmap_remove cache h) None
                    = Inr (if query_plan_cache flags
                           then cmap_remove cache h @ [(h,
                                  \<lparr>plan = p, cost = c, symbol_table = ctx_symbol_table ctx2,
                                   ast_storage = ast1, cache_timer = at_plan_creation rd\<rparr>)]
                           else cmap_remove cache h,
                           \<lparr>plan = p, cost = c, symbol_table = ctx_symbol_table ctx2,
                            ast_storage = ast1, cache_timer = at_plan_creation rd\<rparr>, ctx2)))
       \<and> (\<not> query_plan_cache_ttl flags < duration_cast_seconds (elapsed_of (cache_timer cp))
          \<longrightarrow> find_cached_plan flags elapsed_of cache h = (cache, Some cp)
            \<and> plan_or_compile col flags rd stripped ctx cache (Some cp) = Inr (cache, cp, ctx))"
proof (intro conjI impI)
  assume e: "query_plan_cache_ttl flags < duration_cast_seconds (elapsed_of (cache_timer cp))"
  then have ex: "IsExpired flags elapsed_of cp"
    by (simp add: IsExpired_eq)
  show "find_cached_plan flags elapsed_of cache h = (cmap_remove cache h, None)"
    using assms ex by (rule find_cached_plan_expired)
  show "cmap_find (cmap_remove cache h) h = None"
    by (rule cmap_find_remove)
  {
    assume a: "prepare col query db params explicit = Inr (stripped, ctx) \<and> hash stripped = h
                  \<and> at_lookup rd = elapsed_of"
    with assms ex
    show "Interpret fuel col flags rd (self\<lparr>plan_cache := cache\<rparr>) query db stream params explicit
                    = Interpret fuel col flags rd (self\<lparr>plan_cache := cmap_remove cache h\<rparr>)
                        query db stream params explicit"
      using Interpret_expired_as_miss [of col query db params explicit stripped ctx cache cp flags rd fuel self stream]
      by simp
  }
  {
    assume a: "hash stripped = h \<and> QueryToAst col stripped ctx = Inr (ast, ctx1)
                  \<and> SymbolGenerator col ast (ctx_symbol_table ctx1) = Inr st
                  \<and> MakeLogicalPlan col ast (db_accessor ctx1) (ctx1\<lparr>ctx_symbol_table := st\<rparr>)
                      = Inr (p, c, ast1, ctx2)"
    then show "plan_or_compile col flags rd stripped ctx (cmap_remove cache h) None
                    = Inr (if query_plan_cache flags
                           then cmap_remove cache h @ [(h,
                                  \<lparr>plan = p, cost = c, symbol_table = ctx_symbol_table ctx2,
                                   ast_storage = ast1, cache_timer = at_plan_creation rd\<rparr>)]
                           else cmap_remove cache h,
                           \<lparr>plan = p, cost = c, symbol_table = ctx_symbol_table ctx2,
                            ast_storage = ast1, cache_timer = at_plan_creation rd\<rparr>, ctx2)"
      using plan_or_compile_miss [of col stripped ctx ast ctx1 st p c ast1 ctx2 "cmap_remove cache h" flags rd]
        cmap_find_remove [of cache h]
      by auto
  }
next
  assume "\<not> query_plan_cache_ttl flags < duration_cast_seconds (elapsed_of (cache_timer cp))"
  then have "\<not> IsExpired flags elapsed_of cp"
    by (simp add: IsExpired_eq)
  with assms show "find_cached_plan flags elapsed_of cache h = (cache, Some cp)"
    by (rule find_cached_plan_fresh)
next
  show "plan_or_compile col flags rd stripped ctx cache (Some cp) = Inr (cache, cp, ctx)"
    by (simp add: plan_or_compile_def)
qed

text \<open>
  Claim C5 as stated fails: with a time to live of 10 seconds, a plan that is 10.5 seconds
  old has an age that exceeds the time to live, and the lookup returns it and leaves it in
  the cache.
\<close>

theorem find_cached_plan_expiry_counterexample:
  "real_of_int (query_plan_cache_ttl example_flags) < at_lookup example_readings (cache_timer example_plan)
   \<and> at_lookup example_readings (cache_timer example_plan) = 21 / 2
   \<and> find_cached_plan example_flags (at_lookup example_readings) [(7, example_plan)] 7
       = ([(7, example_plan)], Some example_plan)"
  by (simp add: find_cached_plan_def cmap_find_def IsExpired_def duration_cast_seconds_def
      example_flags_def example_readings_def)

theorem find_cached_plan_expiry_witness:
  "cmap_find [(42 :: 64 word, example_plan)] 42 = Some example_plan
   \<and> query_plan_cache_ttl example_flags < duration_cast_seconds (at_lookup late_readings (cache_timer example_plan))
   \<and> find_cached_plan example_flags (at_lookup late_readings) [(42, example_plan)] 42
       = (cmap_remove [(42, example_plan)] 42, None)
   \<and> cmap_find (cmap_remove [(42 :: 64 word, example_plan)] 42) 42 = None
   \<and> Interpret (Suc (Suc 0)) (example_col (Leaf CreateIndex)) example_flags late_readings
        (example_interpreter\<lparr>plan_cache := [(42, example_plan)]\<rparr>) ''CREATE INDEX ON :L(p)'' 0 []
        example_params False
       = Interpret (Suc (Suc 0)) (example_col (Leaf CreateIndex)) example_flags late_readings
        (example_interpreter\<lparr>plan_cache := cmap_remove [(42, example_plan)] 42\<rparr>) ''CREATE INDEX ON :L(p)'' 0 []
        example_params False
   \<and> plan_or_compile (example_col (Leaf CreateIndex)) example_flags late_readings example_stripped example_ctx
        (cmap_remove [(42, example_plan)] 42) None
       = Inr (cmap_remove [(42, example_plan)] 42 @ [(42, late_plan)], late_plan, example_ctx)
   \<and> \<not> query_plan_cache_ttl example_flags < duration_cast_seconds (at_lookup example_readings (cache_timer example_plan))
   \<and> find_cached_plan example_flags (at_lookup example_readings) [(42, example_plan)] 42
       = ([(42, example_plan)], Some example_plan)
   \<and> plan_or_compile (example_col (Leaf CreateIndex)) example_flags late_readings example_stripped example_ctx
        [(42, example_plan)] (Some example_plan)
       = Inr ([(42, example_plan)], example_plan, example_ctx)"
proof -
  let ?col = "example_col (Leaf CreateIndex)"
  have f: "cmap_find [(42 :: 64 word, example_plan)] 42 = Some example_plan"
    by (simp add: cmap_find_def)
  have late: "query_plan_cache_ttl example_flags
      < duration_cast_seconds (at_lookup late_readings (cache_timer example_plan))"
    by (simp add: example_flags_def example_plan_def late_readings_def example_readings_def duration_cast_seconds_def)
  have early: "\<not> query_plan_cache_ttl example_flags
      < duration_cast_seconds (at_lookup example_readings (cache_timer example_plan))"
    by (simp add: example_flags_def example_plan_def late_readings_def example_readings_def duration_cast_seconds_def)
  have h3: "prepare ?col ''CREATE INDEX ON :L(p)'' 0 example_params False = Inr (example_stripped, example_ctx)
      \<and> hash example_stripped = 42 \<and> at_lookup late_readings = at_lookup late_readings"
    using example_prepare [of "Leaf CreateIndex" "''CREATE INDEX ON :L(p)''" False]
    by (simp add: example_stripped_def late_readings_def example_ctx_def)
  have h4: "hash example_stripped = 42 \<and> QueryToAst ?col example_stripped example_ctx = Inr ((), example_ctx)
      \<and> SymbolGenerator ?col () (ctx_symbol_table example_ctx) = Inr SymbolTable_new
      \<and> MakeLogicalPlan ?col () (db_accessor example_ctx) (example_ctx\<lparr>ctx_symbol_table := SymbolTable_new\<rparr>)
          = Inr (Leaf CreateIndex, 1, (), example_ctx)"
    by (simp add: example_stripped_def example_col_def example_ctx_def)
  note T = find_cached_plan_expiry [OF f, where flags = example_flags and col = ?col
      and stripped = example_stripped and ctx = example_ctx and rd = late_readings]
  note L = T [where elapsed_of = "at_lookup late_readings", THEN conjunct1, THEN mp, OF late]
  have l1: "find_cached_plan example_flags (at_lookup late_readings) [(42, example_plan)] 42
       = (cmap_remove [(42, example_plan)] 42, None)"
    by (rule L [THEN conjunct1])
  have l2: "cmap_find (cmap_remove [(42 :: 64 word, example_plan)] 42) 42 = None"
    by (rule L [THEN conjunct2, THEN conjunct1])
  have l3: "Interpret (Suc (Suc 0)) ?col example_flags late_readings
        (example_interpreter\<lparr>plan_cache := [(42, example_plan)]\<rparr>) ''CREATE INDEX ON :L(p)'' 0 []
        example_params False
       = Interpret (Suc (Suc 0)) ?col example_flags late_readings
        (example_interpreter\<lparr>plan_cache := cmap_remove [(42, example_plan)] 42\<rparr>) ''CREATE INDEX ON :L(p)'' 0 []
        example_params False"
    by (rule L [THEN conjunct2, THEN conjunct2, THEN conjunct1, THEN mp, OF h3])
  have l4: "plan_or_compile ?col example_flags late_readings example_stripped example_ctx
        (cmap_remove [(42, example_plan)] 42) None
       = Inr (cmap_remove [(42, example_plan)] 42 @ [(42, late_plan)], late_plan, example_ctx)"
    using L [THEN conjunct2, THEN conjunct2, THEN conjunct2, THEN mp, OF h4]
    by (simp add: example_flags_def late_plan_def late_readings_def example_ctx_def)
  note E = T [where elapsed_of = "at_lookup example_readings", THEN conjunct2, THEN mp, OF early]
  have e1: "find_cached_plan example_flags (at_lookup example_readings) [(42, example_plan)] 42
       = ([(42, example_plan)], Some example_plan)"
    by (rule E [THEN conjunct1])
  have e2: "plan_or_compile ?col example_flags late_readings example_stripped example_ctx
        [(42, example_plan)] (Some example_plan)
       = Inr ([(42, example_plan)], example_plan, example_ctx)"
    by (rule E [THEN conjunct2])
  show ?thesis
    by (intro conjI) (fact f late l1 l2 l3 l4 early e1 e2)+
qed

subsection \<open>The size of the frame\<close>















section \<open>The plan printer\<close>

lemma WithPrintLn_eq:
  "WithPrintLn indent body p = p\<lparr>out := out p @ line indent (depth p) body\<rparr>"
  by (simp add: WithPrintLn_def line_def)

lemma Accept_rendering:
  "Accept indent dba op p = p\<lparr>out := out p @ rendering indent dba (depth p) op\<rparr>"
  by (induction op arbitrary: p) (simp_all add: WithPrintLn_eq)

lemma PrettyPrint_rendering: "PrettyPrint indent dba op = rendering indent dba 0 op"
  by (simp add: PrettyPrint_def Accept_rendering)

lemma operator_line_star:
  "op \<noteq> Once \<Longrightarrow> \<exists>text. operator_line dba op = ''* '' @ text"
  by (cases op) simp_all

lemma rendering_starts:
  "op \<noteq> Once \<Longrightarrow> \<exists>rest. rendering indent dba d op = line indent d (operator_line dba op) @ rest"
  by (cases op) simp_all

lemma part_of_refl: "part_of x x"
  unfolding part_of_def by (rule exI [of _ "[]"], rule exI [of _ "[]"]) simp

lemma part_of_append_left: "part_of x y \<Longrightarrow> part_of x (p @ y)"
proof -
  assume "part_of x y"
  then obtain b a where "y = b @ x @ a"
    unfolding part_of_def by blast
  then have "p @ y = (p @ b) @ x @ a"
    by simp
  then show ?thesis
    unfolding part_of_def by blast
qed

lemma part_of_append_right: "part_of x y \<Longrightarrow> part_of x (y @ s)"
proof -
  assume "part_of x y"
  then obtain b a where "y = b @ x @ a"
    unfolding part_of_def by blast
  then have "y @ s = b @ x @ (a @ s)"
    by simp
  then show ?thesis
    unfolding part_of_def by blast
qed


lemma rendering_visits:
  "(d', op') \<in> set (visits d op) \<Longrightarrow>
     part_of (rendering indent dba d' op') (rendering indent dba d op)"
proof (induction op arbitrary: d)
  case (Merge input merge_match merge_create)
  from Merge.prems consider
      "(d', op') = (d, Merge input merge_match merge_create)"
    | "(d', op') \<in> set (visits (Suc d) merge_match)"
    | "(d', op') \<in> set (visits (Suc d) merge_create)"
    | "(d', op') \<in> set (visits d input)"
    by auto
  then show ?case
  proof cases
    case 1
    then show ?thesis by (simp add: part_of_refl)
  next
    case 2
    from Merge.IH(2) [OF this] show ?thesis
      by (simp add: part_of_append_left part_of_append_right)
  next
    case 3
    from Merge.IH(3) [OF this] show ?thesis
      by (simp add: part_of_append_left part_of_append_right)
  next
    case 4
    from Merge.IH(1) [OF this] show ?thesis
      by (simp add: part_of_append_left)
  qed
next
  case (Optional input optional)
  from Optional.prems consider
      "(d', op') = (d, Optional input optional)"
    | "(d', op') \<in> set (visits (Suc d) optional)"
    | "(d', op') \<in> set (visits d input)"
    by auto
  then show ?case
  proof cases
    case 1
    then show ?thesis by (simp add: part_of_refl)
  next
    case 2
    from Optional.IH(2) [OF this] show ?thesis
      by (simp add: part_of_append_left part_of_append_right)
  next
    case 3
    from Optional.IH(1) [OF this] show ?thesis
      by (simp add: part_of_append_left)
  qed
next
  case (Cartesian left_symbols right_symbols left_op right_op)
  from Cartesian.prems consider
      "(d', op') = (d, Cartesian left_symbols right_symbols left_op right_op)"
    | "(d', op') \<in> set (visits (Suc d) right_op)"
    | "(d', op') \<in> set (visits d left_op)"
    by auto
  then show ?case
  proof cases
    case 1
    then show ?thesis by (simp add: part_of_refl)
  next
    case 2
    from Cartesian.IH(2) [OF this] show ?thesis
      by (simp add: part_of_append_left part_of_append_right)
  next
    case 3
    from Cartesian.IH(1) [OF this] show ?thesis
      by (simp add: part_of_append_left)
  qed
qed (auto simp: part_of_refl part_of_append_left)


lemma part_of_trans: "part_of x y \<Longrightarrow> part_of y z \<Longrightarrow> part_of x z"
proof -
  assume "part_of x y" and "part_of y z"
  then obtain b a b' a' where "y = b @ x @ a" and "z = b' @ y @ a'"
    unfolding part_of_def by blast
  then have "z = (b' @ b) @ x @ (a @ a')"
    by simp
  then show ?thesis
    unfolding part_of_def by blast
qed

lemma operator_line_printed:
  assumes "(d, op') \<in> set (visits 0 plan_root)" and "op' \<noteq> Once"
  shows "\<exists>text. operator_line dba op' = ''* '' @ text
           \<and> part_of (line indent d (''* '' @ text)) (PrettyPrint indent dba plan_root)"
proof -
  from operator_line_star [OF assms(2)] obtain body where t: "operator_line dba op' = ''* '' @ body"
    by blast
  from rendering_starts [OF assms(2)] obtain rest where
    "rendering indent dba d op' = line indent d (operator_line dba op') @ rest"
    by blast
  then have "part_of (line indent d (operator_line dba op')) (rendering indent dba d op')"
    using part_of_append_right [OF part_of_refl] by simp
  moreover have "part_of (rendering indent dba d op') (rendering indent dba 0 plan_root)"
    using assms(1) by (rule rendering_visits)
  ultimately have "part_of (line indent d (operator_line dba op')) (PrettyPrint indent dba plan_root)"
    unfolding PrettyPrint_rendering by (rule part_of_trans)
  with t show ?thesis
    by auto
qed

text \<open>
  Claim C8, amended. The printer writes the rendering of the plan: every operator of the
  plan other than \<open>Once\<close> has a line of its own that starts with \<open>*\<close> after the
  indentation of the depth at which it is visited, where an input has the depth of its
  operator and a branch is one level deeper. \<open>Optional\<close>, \<open>Merge\<close> and \<open>Cartesian\<close> write each
  branch after a line with the bar and the backslash at their own depth, \<open>Merge\<close> with the
  names \<open>On Match\<close> and \<open>On Create\<close>, and then their input at their own depth.
\<close>

theorem PrettyPrint_renders_plan:
  "PrettyPrint indent dba plan_root = rendering indent dba 0 plan_root
   \<and> Accept indent dba op p = p\<lparr>out := out p @ rendering indent dba (depth p) op\<rparr>
   \<and> (\<forall>(d, op') \<in> set (visits 0 plan_root). op' \<noteq> Once \<longrightarrow>
         (\<exists>text. operator_line dba op' = ''* '' @ text
            \<and> part_of (line indent d (''* '' @ text)) (PrettyPrint indent dba plan_root)))
   \<and> out (Accept indent dba (Optional input optional) p)
       = out p @ line indent (depth p) ''* Optional''
           @ line indent (depth p) (branch_line []) @ rendering indent dba (Suc (depth p)) optional
           @ rendering indent dba (depth p) input
   \<and> out (Accept indent dba (Merge input merge_match merge_create) p)
       = out p @ line indent (depth p) ''* Merge''
           @ line indent (depth p) (branch_line ''On Match'')
           @ rendering indent dba (Suc (depth p)) merge_match
           @ line indent (depth p) (branch_line ''On Create'')
           @ rendering indent dba (Suc (depth p)) merge_create
           @ rendering indent dba (depth p) input
   \<and> out (Accept indent dba (Cartesian left_symbols right_symbols left_op right_op) p)
       = out p
           @ line indent (depth p) (operator_line dba (Cartesian left_symbols right_symbols left_op right_op))
           @ line indent (depth p) (branch_line []) @ rendering indent dba (Suc (depth p)) right_op
           @ rendering indent dba (depth p) left_op"
proof (intro conjI)
  show "PrettyPrint indent dba plan_root = rendering indent dba 0 plan_root"
    by (rule PrettyPrint_rendering)
  show "Accept indent dba op p = p\<lparr>out := out p @ rendering indent dba (depth p) op\<rparr>"
    by (rule Accept_rendering)
  show "\<forall>(d, op') \<in> set (visits 0 plan_root). op' \<noteq> Once \<longrightarrow>
         (\<exists>text. operator_line dba op' = ''* '' @ text
            \<and> part_of (line indent d (''* '' @ text)) (PrettyPrint indent dba plan_root))"
    using operator_line_printed by blast
  show "out (Accept indent dba (Optional input optional) p)
       = out p @ line indent (depth p) ''* Optional''
           @ line indent (depth p) (branch_line []) @ rendering indent dba (Suc (depth p)) optional
           @ rendering indent dba (depth p) input"
    by (simp add: Accept_rendering)
  show "out (Accept indent dba (Merge input merge_match merge_create) p)
       = out p @ line indent (depth p) ''* Merge''
           @ line indent (depth p) (branch_line ''On Match'')
           @ rendering indent dba (Suc (depth p)) merge_match
           @ line indent (depth p) (branch_line ''On Create'')
           @ rendering indent dba (Suc (depth p)) merge_create
           @ rendering indent dba (depth p) input"
    by (simp add: Accept_rendering)
  show "out (Accept indent dba (Cartesian left_symbols right_symbols left_op right_op) p)
       = out p
           @ line indent (depth p) (operator_line dba (Cartesian left_symbols right_symbols left_op right_op))
           @ line indent (depth p) (branch_line []) @ rendering indent dba (Suc (depth p)) right_op
           @ rendering indent dba (depth p) left_op"
    by (simp add: Accept_rendering)
qed

text \<open>
  Claim C8 as stated fails for \<open>Once\<close>, which is an operator of every plan and has no
  line: the plan \<open>Once\<close> prints nothing, and the plan of a \<open>Filter\<close> over \<open>Once\<close> prints one
  line for its two operators.
\<close>

theorem PrettyPrint_renders_plan_counterexample:
  "PrettyPrint example_indent example_names Once = []
   \<and> PrettyPrint example_indent example_names (Unary Filter Once) = '' * Filter'' @ [CHR 0x0A]"
  by (simp add: PrettyPrint_def WithPrintLn_def example_indent_def)

lemma example_optional_printed:
  "PrettyPrint example_indent example_names example_optional
     = line example_indent 0 ''* Produce {n, r}'' @ line example_indent 0 ''* Optional''
       @ line example_indent 0 (branch_line []) @ line example_indent 1 ''* Expand (n)-[r]->(m)''
       @ line example_indent 0 ''* ScanAll (n)''"
  by (simp add: PrettyPrint_rendering example_optional_def example_expand_def PrintExpand_def
      symbol_n_def symbol_r_def symbol_m_def)

theorem PrettyPrint_renders_plan_witness:
  "(1, example_expand) \<in> set (visits 0 example_optional) \<and> example_expand \<noteq> Once
   \<and> PrettyPrint example_indent example_names example_optional
       = line example_indent 0 ''* Produce {n, r}'' @ line example_indent 0 ''* Optional''
         @ line example_indent 0 (branch_line []) @ line example_indent 1 ''* Expand (n)-[r]->(m)''
         @ line example_indent 0 ''* ScanAll (n)''
   \<and> part_of (line example_indent 1 ''* Expand (n)-[r]->(m)'')
        (PrettyPrint example_indent example_names example_optional)"
proof -
  have v: "(1, example_expand) \<in> set (visits 0 example_optional)"
    by (simp add: example_optional_def example_expand_def)
  have n: "example_expand \<noteq> Once"
    by (simp add: example_expand_def)
  have l: "operator_line example_names example_expand = ''* Expand (n)-[r]->(m)''"
    by (simp add: example_expand_def PrintExpand_def symbol_n_def symbol_r_def symbol_m_def)
  from PrettyPrint_renders_plan [of example_indent example_names example_optional,
      THEN conjunct2, THEN conjunct2, THEN conjunct1, THEN bspec, OF v] n
  obtain body where "operator_line example_names example_expand = ''* '' @ body"
    and p: "part_of (line example_indent 1 (''* '' @ body))
              (PrettyPrint example_indent example_names example_optional)"
    by auto
  with l have "''* '' @ body = ''* Expand (n)-[r]->(m)''"
    by simp
  with p have "part_of (line example_indent 1 ''* Expand (n)-[r]->(m)'')
      (PrettyPrint example_indent example_names example_optional)"
    by simp
  with v n example_optional_printed show ?thesis
    by blast
qed


section \<open>Operator contracts\<close>

lemma expansion_ok_null:
  "Frame_at frame current_sym = Some TNull \<Longrightarrow> expansion_ok frame previous_syms current_sym = Some True"
  by (simp add: expansion_ok_def)

lemma uniqueness_filter_keeps:
  "uniqueness_filter previous_syms current_sym frames = Some kept \<Longrightarrow> frame \<in> set frames \<Longrightarrow>
     expansion_ok frame previous_syms current_sym = Some True \<Longrightarrow> frame \<in> set kept"
proof (induction frames arbitrary: kept)
  case Nil
  then show ?case by simp
next
  case (Cons first frames)
  from Cons.prems(1) obtain ok rest where
    ok: "expansion_ok first previous_syms current_sym = Some ok"
    and rest: "uniqueness_filter previous_syms current_sym frames = Some rest"
    and kept: "kept = (if ok then first # rest else rest)"
    by (auto split: option.splits)
  show ?case
  proof (cases "frame = first")
    case True
    with ok Cons.prems(3) kept show ?thesis by simp
  next
    case False
    with Cons.prems(2) have "frame \<in> set frames" by simp
    from Cons.IH [OF rest this Cons.prems(3)] kept show ?thesis by simp
  qed
qed

lemma test_rows:
  "rows test_graph test_plan (Frame_new 8)
     = Some [[TVertex 0, TNull, TNull, TNull, TNull, TVertex 0, TNull, TNull],
             [TVertex 1, TNull, TNull, TNull, TNull, TVertex 1, TNull, TNull],
             [TVertex 2, TNull, TNull, TNull, TNull, TVertex 2, TNull, TNull]]"
  by code_simp


text \<open>
  Claim C2. \<open>ExpandUniquenessFilter\<close> keeps every row whose current symbol is null: the
  check says that the row is kept, and the row is among the rows that the filter produces.
  On the graph that \<open>CREATE (), ()-[:Type]->()\<close> leaves, the query
  \<open>MATCH (n) OPTIONAL MATCH (n)-[r1]->(), (n)-[r2]->() RETURN n, r1, r2\<close> returns exactly
  three rows, one for each vertex, with \<open>r1\<close> and \<open>r2\<close> null.
\<close>

theorem ExpandUniquenessFilter_keeps_null:
  "(Frame_at frame current_sym = Some TNull
      \<longrightarrow> expansion_ok frame previous_syms current_sym = Some True)
   \<and> (rows g input frame0 = Some produced \<and> frame \<in> set produced
       \<and> Frame_at frame current_sym = Some TNull
       \<and> rows g (PExpandUniquenessFilter previous_syms current_sym input) frame0 = Some kept
      \<longrightarrow> frame \<in> set kept)
   \<and> results (rows test_graph test_plan (Frame_new 8))
       = Some [[TVertex 0, TNull, TNull], [TVertex 1, TNull, TNull], [TVertex 2, TNull, TNull]]
   \<and> map_option length (rows test_graph test_plan (Frame_new 8)) = Some 3"
proof (intro conjI impI)
  assume "Frame_at frame current_sym = Some TNull"
  then show "expansion_ok frame previous_syms current_sym = Some True"
    by (rule expansion_ok_null)
next
  assume a: "rows g input frame0 = Some produced \<and> frame \<in> set produced
       \<and> Frame_at frame current_sym = Some TNull
       \<and> rows g (PExpandUniquenessFilter previous_syms current_sym input) frame0 = Some kept"
  then have f: "uniqueness_filter previous_syms current_sym produced = Some kept"
    by auto
  from a have "expansion_ok frame previous_syms current_sym = Some True"
    by (simp add: expansion_ok_null)
  with f a show "frame \<in> set kept"
    using uniqueness_filter_keeps by blast
next
  show "results (rows test_graph test_plan (Frame_new 8))
       = Some [[TVertex 0, TNull, TNull], [TVertex 1, TNull, TNull], [TVertex 2, TNull, TNull]]"
    by (simp add: test_rows results_def)
  show "map_option length (rows test_graph test_plan (Frame_new 8)) = Some 3"
    by (simp add: test_rows)
qed

theorem ExpandUniquenessFilter_keeps_null_witness:
  "Frame_at (Frame_new 8) (symbol_at ''r2'' 3) = Some TNull
   \<and> expansion_ok (Frame_new 8) [symbol_at ''r1'' 1] (symbol_at ''r2'' 3) = Some True
   \<and> rows test_graph POnce (Frame_new 8) = Some [Frame_new 8]
   \<and> Frame_new 8 \<in> set [Frame_new 8]
   \<and> rows test_graph (PExpandUniquenessFilter [symbol_at ''r1'' 1] (symbol_at ''r2'' 3) POnce) (Frame_new 8)
       = Some [Frame_new 8]"
proof -
  have n: "Frame_at (Frame_new 8) (symbol_at ''r2'' 3) = Some TNull"
    by (simp add: Frame_at_def Frame_new_def symbol_at_def)
  note ok = ExpandUniquenessFilter_keeps_null [THEN conjunct1, THEN mp, OF n]
  have r: "rows test_graph POnce (Frame_new 8) = Some [Frame_new 8]"
    by simp
  have f: "rows test_graph (PExpandUniquenessFilter [symbol_at ''r1'' 1] (symbol_at ''r2'' 3) POnce)
      (Frame_new 8) = Some [Frame_new 8]"
    by (simp add: ok)
  have hyp: "rows test_graph POnce (Frame_new 8) = Some [Frame_new 8] \<and> Frame_new 8 \<in> set [Frame_new 8]
       \<and> Frame_at (Frame_new 8) (symbol_at ''r2'' 3) = Some TNull
       \<and> rows test_graph (PExpandUniquenessFilter [symbol_at ''r1'' 1] (symbol_at ''r2'' 3) POnce) (Frame_new 8)
           = Some [Frame_new 8]"
    using n r f by simp
  note kept = ExpandUniquenessFilter_keeps_null [THEN conjunct2, THEN conjunct1, THEN mp, OF hyp]
  from n ok [of "[symbol_at ''r1'' 1]"] r f kept show ?thesis
    by simp
qed


end
